theory Spec2Isabelle
  imports Complex_Main
begin

section \<open>JavaScript values used by the service\<close>

text \<open>
  A JavaScript string is a sequence of UTF-16 code units. Code units are kept as natural
  numbers, so that \<open>trim\<close> can see the white space outside Latin-1; \<open>lit\<close> embeds an
  ASCII literal of the source.
\<close>

type_synonym js_string = "nat list"

definition lit :: "string \<Rightarrow> js_string" where
  "lit s = map of_char s"

text \<open>
  The code units that \<open>String.prototype.trim\<close> and \<open>Number\<close> strip: ECMAScript
  WhiteSpace (TAB, VT, FF, SP, NBSP, ZWNBSP and the Unicode space separators) and
  LineTerminator (LF, CR, LS, PS).
\<close>

definition is_ws :: "nat \<Rightarrow> bool" where
  "is_ws c \<longleftrightarrow>
     c = 0x09 \<or> c = 0x0A \<or> c = 0x0B \<or> c = 0x0C \<or> c = 0x0D \<or> c = 0x20 \<or> c = 0xA0 \<or>
     c = 0x1680 \<or> (0x2000 \<le> c \<and> c \<le> 0x200A) \<or> c = 0x2028 \<or> c = 0x2029 \<or>
     c = 0x202F \<or> c = 0x205F \<or> c = 0x3000 \<or> c = 0xFEFF"

definition trim :: "js_string \<Rightarrow> js_string" where
  "trim s = rev (dropWhile is_ws (rev (dropWhile is_ws s)))"

fun starts_with :: "js_string \<Rightarrow> js_string \<Rightarrow> bool" where
  "starts_with s [] = True"
| "starts_with [] (p # ps) = False"
| "starts_with (c # cs) (p # ps) = (c = p \<and> starts_with cs ps)"

text \<open>\<open>s.includes(sub)\<close>: \<open>sub\<close> occurs in \<open>s\<close> as a contiguous run.\<close>

fun str_includes :: "js_string \<Rightarrow> js_string \<Rightarrow> bool" where
  "str_includes [] sub = (sub = [])"
| "str_includes (c # cs) sub = (starts_with (c # cs) sub \<or> str_includes cs sub)"

text \<open>
  A Number, as far as the service looks at one. A finite value is kept as the exact
  mathematical value of the literal it was read from; the two tests the source makes on
  it (\<open>isNaN\<close> and \<open>\<le> 0\<close>) are defined below so that they agree with the double that
  value rounds to.
\<close>

datatype js_number = NaN | Fin rat | PosInfinity | NegInfinity

definition isNaN :: "js_number \<Rightarrow> bool" where
  "isNaN x \<longleftrightarrow> x = NaN"

text \<open>
  Round-to-nearest-even sends every value up to and including \<open>2 ^ -1075\<close>, half of the
  smallest subnormal double, to zero, and every larger one to a positive double.
\<close>

definition underflow_bound :: rat where
  "underflow_bound = 1 / 2 ^ 1075"

text \<open>\<open>x <= 0\<close> on Numbers; any comparison with NaN is false.\<close>

definition le_zero :: "js_number \<Rightarrow> bool" where
  "le_zero x = (case x of NaN \<Rightarrow> False | Fin v \<Rightarrow> v \<le> underflow_bound
                | PosInfinity \<Rightarrow> False | NegInfinity \<Rightarrow> True)"

text \<open>\<open>x > 0\<close> on Numbers.\<close>

definition gt_zero :: "js_number \<Rightarrow> bool" where
  "gt_zero x = (case x of NaN \<Rightarrow> False | Fin v \<Rightarrow> underflow_bound < v
                | PosInfinity \<Rightarrow> True | NegInfinity \<Rightarrow> False)"

subsection \<open>\<open>Number(string)\<close>\<close>

definition is_digit :: "nat \<Rightarrow> bool" where
  "is_digit c \<longleftrightarrow> 0x30 \<le> c \<and> c \<le> 0x39"

text \<open>The value of a hexadecimal, octal or binary digit, when the code unit is one.\<close>

definition digit_of :: "nat \<Rightarrow> nat \<Rightarrow> nat option" where
  "digit_of radix c =
     (let v = (if 0x30 \<le> c \<and> c \<le> 0x39 then Some (c - 0x30)
               else if 0x61 \<le> c \<and> c \<le> 0x66 then Some (c - 0x61 + 10)
               else if 0x41 \<le> c \<and> c \<le> 0x46 then Some (c - 0x41 + 10)
               else None)
      in case v of None \<Rightarrow> None | Some d \<Rightarrow> if d < radix then Some d else None)"

fun radix_value :: "nat \<Rightarrow> nat \<Rightarrow> js_string \<Rightarrow> nat option" where
  "radix_value radix acc [] = Some acc"
| "radix_value radix acc (c # cs) =
     (case digit_of radix c of None \<Rightarrow> None
      | Some d \<Rightarrow> radix_value radix (radix * acc + d) cs)"

definition decimal_value :: "js_string \<Rightarrow> nat" where
  "decimal_value ds = foldl (\<lambda>a c. 10 * a + (c - 0x30)) 0 ds"

text \<open>\<open>10\<close> to an integer power, as a rational.\<close>

definition pow10 :: "int \<Rightarrow> rat" where
  "pow10 e = (if 0 \<le> e then 10 ^ nat e else 1 / 10 ^ nat (- e))"

text \<open>ExponentPart, which has to use up the rest of the literal: its value, or no parse.\<close>

definition exponent_part :: "js_string \<Rightarrow> int option" where
  "exponent_part r =
     (case r of
        [] \<Rightarrow> Some 0
      | c # r1 \<Rightarrow>
          if c = 0x65 \<or> c = 0x45 then
            (case r1 of
               [] \<Rightarrow> None
             | s # r2 \<Rightarrow>
                 if s = 0x2B then
                   (if r2 \<noteq> [] \<and> list_all is_digit r2 then Some (int (decimal_value r2)) else None)
                 else if s = 0x2D then
                   (if r2 \<noteq> [] \<and> list_all is_digit r2 then Some (- int (decimal_value r2)) else None)
                 else
                   (if list_all is_digit r1 then Some (int (decimal_value r1)) else None))
          else None)"

text \<open>StrUnsignedDecimalLiteral: \<open>Infinity\<close>, or digits with an optional fraction and exponent.\<close>

definition unsigned_decimal :: "js_string \<Rightarrow> js_number" where
  "unsigned_decimal t =
     (if t = lit ''Infinity'' then PosInfinity
      else
        let ip = takeWhile is_digit t;
            r1 = dropWhile is_digit t;
            fp = (case r1 of [] \<Rightarrow> [] | c # r \<Rightarrow> if c = 0x2E then takeWhile is_digit r else []);
            r2 = (case r1 of [] \<Rightarrow> [] | c # r \<Rightarrow> if c = 0x2E then dropWhile is_digit r else r1)
        in if ip = [] \<and> fp = [] then NaN
           else (case exponent_part r2 of
                   None \<Rightarrow> NaN
                 | Some e \<Rightarrow> Fin (of_nat (decimal_value (ip @ fp)) * pow10 (e - int (length fp)))))"

definition negate :: "js_number \<Rightarrow> js_number" where
  "negate x = (case x of NaN \<Rightarrow> NaN | Fin v \<Rightarrow> Fin (- v)
               | PosInfinity \<Rightarrow> NegInfinity | NegInfinity \<Rightarrow> PosInfinity)"

text \<open>
  StringToNumber: white space is stripped from both ends; the empty string is \<open>0\<close>; a
  \<open>0x\<close>, \<open>0o\<close> or \<open>0b\<close> literal takes no sign; anything that is not a
  StrNumericLiteral is NaN.
\<close>

definition Number :: "js_string \<Rightarrow> js_number" where
  "Number s =
     (let t = trim s in
      case t of
        [] \<Rightarrow> Fin 0
      | c # r \<Rightarrow>
          if c = 0x2B then unsigned_decimal r
          else if c = 0x2D then negate (unsigned_decimal r)
          else
            (case r of
               [] \<Rightarrow> unsigned_decimal t
             | x # ds \<Rightarrow>
                 if c = 0x30 \<and> (x = 0x78 \<or> x = 0x58) then
                   (case (if ds = [] then None else radix_value 16 0 ds) of
                      None \<Rightarrow> NaN | Some n \<Rightarrow> Fin (of_nat n))
                 else if c = 0x30 \<and> (x = 0x6F \<or> x = 0x4F) then
                   (case (if ds = [] then None else radix_value 8 0 ds) of
                      None \<Rightarrow> NaN | Some n \<Rightarrow> Fin (of_nat n))
                 else if c = 0x30 \<and> (x = 0x62 \<or> x = 0x42) then
                   (case (if ds = [] then None else radix_value 2 0 ds) of
                      None \<Rightarrow> NaN | Some n \<Rightarrow> Fin (of_nat n))
                 else unsigned_decimal t))"

text \<open>
  \<open>Number.prototype.toString\<close> on a non-negative integer below \<open>10 ^ 21\<close>: its decimal
  digits, most significant first.
\<close>

fun toString :: "nat \<Rightarrow> js_string" where
  "toString n = (if n < 10 then [0x30 + n] else toString (n div 10) @ [0x30 + n mod 10])"

declare toString.simps [simp del]

subsection \<open>Values and their truthiness\<close>

text \<open>
  A JavaScript value, as far as a condition looks at one; \<open>'o\<close> is what an object
  holds.
\<close>

datatype 'o js_value =
    JUndefined
  | JNull
  | JBoolean bool
  | JNumber js_number
  | JBigInt int
  | JString js_string
  | JSymbol
  | JObject 'o

text \<open>
  ToBoolean, the test that \<open>v ? a : b\<close> makes: \<open>undefined\<close>, \<open>null\<close>, \<open>false\<close>,
  \<open>NaN\<close>, a zero of either sign, \<open>0n\<close> and the empty string are falsy, and every
  other value is truthy. A finite Number is a zero when the double it stands for is.
\<close>

definition truthy :: "'o js_value \<Rightarrow> bool" where
  "truthy v =
     (case v of
        JUndefined \<Rightarrow> False
      | JNull \<Rightarrow> False
      | JBoolean b \<Rightarrow> b
      | JNumber x \<Rightarrow>
          (case x of
             NaN \<Rightarrow> False
           | Fin r \<Rightarrow> r < - underflow_bound \<or> underflow_bound < r
           | PosInfinity \<Rightarrow> True
           | NegInfinity \<Rightarrow> True)
      | JBigInt n \<Rightarrow> n \<noteq> 0
      | JString s \<Rightarrow> s \<noteq> []
      | JSymbol \<Rightarrow> True
      | JObject obj \<Rightarrow> True)"

section \<open>The Stellar service (\<open>frontend/src/services/stellar.ts\<close>)\<close>

subsection \<open>What the SDK and the network do\<close>

text \<open>
  What a \<open>catch\<close> clause binds: an object that is \<open>instanceof Error\<close>, with its
  message, or any other thrown value.
\<close>

datatype thrown = JsError js_string | NonError

datatype scval_type = TString | TU32 | TI128 | TAddress

datatype js_arg = Str js_string | Num js_number

text \<open>
  The operations of \<open>@stellar/stellar-sdk\<close> and of the RPC server that the service
  invokes, with the arguments it passes.
\<close>

datatype sdk_call =
    NewContract js_string
  | NativeToScVal js_arg scval_type
  | ContractCall js_string
  | GetAccount js_string
  | BuildTransaction js_string
  | SimulateTransaction
  | AssembleTransaction
  | TransactionHash

text \<open>
  The SDK and the network are outside the repository: \<open>throws\<close> says which operation
  throws (or rejects) and what, \<open>simulation_error\<close> is \<open>simulated.error\<close> when
  \<open>isSimulationError(simulated)\<close> holds, \<open>prepared_hash\<close> is
  \<open>prepared.hash().toString('hex')\<close> and \<open>date_now\<close> is \<open>Date.now()\<close>.
\<close>

record sdk_env =
  throws :: "sdk_call \<Rightarrow> thrown option"
  simulation_error :: "js_string option"
  prepared_hash :: js_string
  date_now :: nat

text \<open>
  The fields the constructor sets from \<open>getNetworkConfig\<close>, and
  \<open>STELLAR_CONFIG.factoryContractId\<close>; \<open>../config/stellar\<close> is not part of the
  sources, so they are parameters.
\<close>

record service =
  factoryContractId :: js_string
  networkPassphrase :: js_string

text \<open>
  Runs SDK operations in program order, appending each to the trace of operations
  invoked so far, and stops at the first one that throws.
\<close>

fun sdk_seq :: "sdk_env \<Rightarrow> sdk_call list \<Rightarrow> sdk_call list \<Rightarrow> thrown option \<times> sdk_call list" where
  "sdk_seq env [] tr = (None, tr)"
| "sdk_seq env (c # cs) tr =
     (case throws env c of
        Some e \<Rightarrow> (Some e, tr @ [c])
      | None \<Rightarrow> sdk_seq env cs (tr @ [c]))"

subsection \<open>\<open>mintTokens\<close>\<close>

text \<open>The four guard clauses at the head of the \<open>try\<close> block; \<open>!s\<close> on a string is \<open>s = ''\<close>.\<close>

definition mint_validate :: "js_string \<Rightarrow> js_string \<Rightarrow> js_string \<Rightarrow> js_string \<Rightarrow> thrown option" where
  "mint_validate tokenAddress recipient amount adminAddress =
     (if tokenAddress = [] \<or> trim tokenAddress = [] then
        Some (JsError (lit ''Token address is required''))
      else if recipient = [] \<or> trim recipient = [] then
        Some (JsError (lit ''Recipient address is required''))
      else if adminAddress = [] \<or> trim adminAddress = [] then
        Some (JsError (lit ''Admin address is required''))
      else if amount = [] \<or> isNaN (Number amount) \<or> le_zero (Number amount) then
        Some (JsError (lit ''Invalid amount: must be a positive number''))
      else None)"

definition mintingFee :: js_string where
  "mintingFee = lit ''1000000''"

text \<open>The operations after the guards, up to and including the simulation.\<close>

definition mint_calls :: "service \<Rightarrow> js_string \<Rightarrow> js_string \<Rightarrow> js_string \<Rightarrow> js_string \<Rightarrow> sdk_call list" where
  "mint_calls svc tokenAddress recipient amount adminAddress =
     [NewContract tokenAddress,
      NativeToScVal (Str recipient) TAddress,
      NativeToScVal (Str amount) TI128,
      NativeToScVal (Str mintingFee) TI128,
      ContractCall (lit ''mint_tokens''),
      GetAccount adminAddress,
      BuildTransaction (networkPassphrase svc),
      SimulateTransaction]"

definition mint_try ::
  "service \<Rightarrow> sdk_env \<Rightarrow> js_string \<Rightarrow> js_string \<Rightarrow> js_string \<Rightarrow> js_string
     \<Rightarrow> (thrown + js_string) \<times> sdk_call list" where
  "mint_try svc env tokenAddress recipient amount adminAddress =
     (case mint_validate tokenAddress recipient amount adminAddress of
        Some e \<Rightarrow> (Inl e, [])
      | None \<Rightarrow>
          (case sdk_seq env (mint_calls svc tokenAddress recipient amount adminAddress) [] of
             (Some e, tr) \<Rightarrow> (Inl e, tr)
           | (None, tr) \<Rightarrow>
               (case simulation_error env of
                  Some err \<Rightarrow>
                    if str_includes err (lit ''unauthorized'') \<or> str_includes err (lit ''auth'') then
                      (Inl (JsError (lit ''Unauthorized: Admin authorization required for minting'')), tr)
                    else (Inl (JsError (lit ''Simulation failed: '' @ err)), tr)
                | None \<Rightarrow>
                    (case sdk_seq env [AssembleTransaction, TransactionHash] tr of
                       (Some e, tr') \<Rightarrow> (Inl e, tr')
                     | (None, tr') \<Rightarrow> (Inr (prepared_hash env), tr')))))"

text \<open>The \<open>catch\<close> clause of \<open>mintTokens\<close>: what it throws for what it caught.\<close>

definition mint_catch :: "thrown \<Rightarrow> thrown" where
  "mint_catch error =
     (case error of
        JsError m \<Rightarrow>
          if str_includes m (lit ''unauthorized'') \<or> str_includes m (lit ''Unauthorized'') then
            JsError (lit ''Unauthorized: Only the admin can mint tokens'')
          else if str_includes m (lit ''Invalid amount'') then error
          else JsError (lit ''Minting failed: '' @ m)
      | NonError \<Rightarrow> JsError (lit ''Minting failed: Unknown error''))"

definition mintTokens ::
  "service \<Rightarrow> sdk_env \<Rightarrow> js_string \<Rightarrow> js_string \<Rightarrow> js_string \<Rightarrow> js_string
     \<Rightarrow> (thrown + js_string) \<times> sdk_call list" where
  "mintTokens svc env tokenAddress recipient amount adminAddress =
     (case mint_try svc env tokenAddress recipient amount adminAddress of
        (Inl error, tr) \<Rightarrow> (Inl (mint_catch error), tr)
      | (Inr hash, tr) \<Rightarrow> (Inr hash, tr))"

subsection \<open>\<open>calculateTotalFee\<close> and \<open>handleError\<close>\<close>

text \<open>
  \<open>TokenDeployParams\<close> is declared in \<open>../types\<close>, which is not part of the sources.
  Its fields are typed after their use in \<open>deployToken\<close>. Of \<open>metadata\<close> the source
  only tests the truthiness, so the field holds any value, \<open>JUndefined\<close> when it is
  absent; \<open>'m\<close> is what a metadata object holds.
\<close>

record 'm token_deploy_params =
  name :: js_string
  symbol :: js_string
  decimals :: js_number
  initialSupply :: js_string
  adminWallet :: js_string
  metadata :: "'m js_value"

record deployment_result =
  tokenAddress :: js_string
  transactionHash :: js_string
  totalFee :: js_string
  timestamp :: nat

definition calculateTotalFee :: "'m token_deploy_params \<Rightarrow> nat" where
  "calculateTotalFee params =
     (let baseFee = 10000000;
          metadataFee = (if truthy (metadata params) then 5000000 else 0)
      in baseFee + metadataFee)"

definition handleError :: "thrown \<Rightarrow> thrown" where
  "handleError error =
     (case error of
        JsError m \<Rightarrow> error
      | NonError \<Rightarrow> JsError (lit ''An unknown error occurred''))"

subsection \<open>\<open>deployToken\<close>\<close>

text \<open>The operations of the \<open>try\<close> block up to and including the simulation.\<close>

definition deploy_calls :: "service \<Rightarrow> 'm token_deploy_params \<Rightarrow> js_string \<Rightarrow> sdk_call list" where
  "deploy_calls svc params sourceAddress =
     [NewContract (factoryContractId svc),
      NativeToScVal (Str (name params)) TString,
      NativeToScVal (Str (symbol params)) TString,
      NativeToScVal (Num (decimals params)) TU32,
      NativeToScVal (Str (initialSupply params)) TI128,
      NativeToScVal (Str (adminWallet params)) TAddress,
      NativeToScVal (Num (Fin (of_nat (calculateTotalFee params)))) TI128,
      ContractCall (lit ''create_token''),
      GetAccount sourceAddress,
      BuildTransaction (networkPassphrase svc),
      SimulateTransaction]"

text \<open>The body of the \<open>try\<close> block: what it throws or returns, and the SDK operations invoked.\<close>

definition deploy_try ::
  "service \<Rightarrow> sdk_env \<Rightarrow> 'm token_deploy_params \<Rightarrow> js_string
     \<Rightarrow> (thrown + deployment_result) \<times> sdk_call list" where
  "deploy_try svc env params sourceAddress =
     (case sdk_seq env (deploy_calls svc params sourceAddress) [] of
        (Some e, tr) \<Rightarrow> (Inl e, tr)
      | (None, tr) \<Rightarrow>
          (case simulation_error env of
             Some err \<Rightarrow> (Inl (JsError (lit ''Simulation failed: '' @ err)), tr)
           | None \<Rightarrow>
               (case sdk_seq env [AssembleTransaction, TransactionHash] tr of
                  (Some e, tr') \<Rightarrow> (Inl e, tr')
                | (None, tr') \<Rightarrow>
                    (Inr \<lparr>tokenAddress = [],
                          transactionHash = prepared_hash env,
                          totalFee = toString (calculateTotalFee params),
                          timestamp = date_now env\<rparr>, tr'))))"

definition deployToken ::
  "service \<Rightarrow> sdk_env \<Rightarrow> 'm token_deploy_params \<Rightarrow> js_string
     \<Rightarrow> (thrown + deployment_result) \<times> sdk_call list" where
  "deployToken svc env params sourceAddress =
     (case deploy_try svc env params sourceAddress of
        (Inl error, tr) \<Rightarrow> (Inl (handleError error), tr)
      | (Inr result, tr) \<Rightarrow> (Inr result, tr))"

section \<open>The transaction monitor\<close>

text \<open>
  \<open>monitorTransaction\<close> is described by the service's documentation, but its code is not
  part of the sources. The monitor below follows the specification of the polling loop
  step by step. Times are in milliseconds on an injected clock and are rationals: the
  products of the default policy are exact in double precision.
\<close>

text \<open>
  Modelled from the spec: the \<open>state\<close> of a TransactionStatus; the types of
  \<open>monitorTransaction\<close> are not part of the sources.
\<close>

datatype tx_state = Pending | Success | Failed

text \<open>
  Modelled from the spec: the TransactionStatus value object, which the sources do not
  declare.
\<close>

record transaction_status =
  tx_identifier :: js_string
  state :: tx_state
  observedAt :: rat
  fee :: "rat option"

text \<open>
  Modelled from the spec: the PollingPolicy of a monitoring session, which the sources do
  not declare.
\<close>

record polling_policy =
  initialIntervalMs :: rat
  maxIntervalMs :: rat
  backoffMultiplier :: rat
  timeoutMs :: rat

text \<open>
  Modelled from the spec: the defaults of the PollingPolicy, constants of
  \<open>monitorTransaction\<close>, which is not part of the sources.
\<close>

definition default_policy :: polling_policy where
  "default_policy =
     \<lparr>initialIntervalMs = 2000, maxIntervalMs = 10000, backoffMultiplier = 3 / 2,
      timeoutMs = 60000\<rparr>"

text \<open>
  Modelled from the spec: what the Status Provider, which is outside the sources, answers
  to one query: the current state and fee of the transaction, or a transient error. The
  timestamp that comes with an answer is the time of the observation, which the session
  reads off its clock when the answer arrives; a reply carries no other.
\<close>

datatype provider_reply = Status tx_state "rat option" | TransientError

text \<open>
  Modelled from the spec: the Status Provider, which is outside the sources, as one
  session sees it. The \<open>n\<close>-th query of the session (counted from \<open>0\<close>) gets a reply,
  after a latency during which the monitor is suspended.
\<close>

type_synonym provider = "nat \<Rightarrow> provider_reply \<times> rat"

text \<open>
  Modelled from the spec: the error taxonomy of the monitor, whose code is not part of the
  sources. A timeout carries the identifier and the elapsed time.
\<close>

datatype monitor_error = InvalidIdentifier | MonitoringTimeout js_string rat

text \<open>
  Modelled from the spec: the variables a session of \<open>monitorTransaction\<close>, which is
  not part of the sources, owns (the clock reading, the current interval, the last known
  status), with what an observer of the session sees: the
  number of queries issued, the statuses handed to \<open>onProgress\<close> and the waits made,
  oldest first.
\<close>

record session =
  now :: rat
  interval :: rat
  queries :: nat
  known :: transaction_status
  delivered :: "transaction_status list"
  waited :: "rat list"

text \<open>
  Modelled from the spec: the call of \<open>onProgress\<close> in \<open>monitorTransaction\<close>, which
  is not part of the sources. The callback is optional; when one is provided it is
  invoked with the status, and what it throws is ignored.
\<close>

definition deliver :: "bool \<Rightarrow> transaction_status \<Rightarrow> session \<Rightarrow> session" where
  "deliver onProgress status s =
     (if onProgress then s\<lparr>delivered := delivered s @ [status]\<rparr> else s)"

text \<open>
  Modelled from the spec: steps (d) to (g) of the polling loop, for a status that is not
  terminal; \<open>monitorTransaction\<close> itself is not part of the sources.
  (d) the current status is handed to \<open>onProgress\<close>; (e) at or after the deadline the
  session fails with a timeout that carries the identifier and the elapsed time, and does
  not poll again; (f) otherwise it waits for the interval; (g) the next interval is
  \<open>min (interval * backoffMultiplier) maxIntervalMs\<close>.
  \<open>Inl\<close> is the final result of the session, \<open>Inr\<close> the session at its next query.
\<close>

definition pending_step ::
  "polling_policy \<Rightarrow> bool \<Rightarrow> js_string \<Rightarrow> rat \<Rightarrow> rat \<Rightarrow> transaction_status \<Rightarrow> session
     \<Rightarrow> ((monitor_error + transaction_status) \<times> session) + session" where
  "pending_step policy onProgress ident start deadline current s1 =
     (let s2 = deliver onProgress current (s1\<lparr>known := current\<rparr>)
      in if deadline \<le> now s2 then
           Inl (Inl (MonitoringTimeout ident (now s2 - start)), s2)
         else
           Inr (s2\<lparr>now := now s2 + interval s2,
                   waited := waited s2 @ [interval s2],
                   interval := min (interval s2 * backoffMultiplier policy)
                                   (maxIntervalMs policy)\<rparr>))"

text \<open>
  Modelled from the spec: one cycle of the polling loop, steps (a) to (g);
  \<open>monitorTransaction\<close> itself is not part of the sources.
  (a) query the provider, which takes the latency of the query; the \<open>observedAt\<close> of
  the status of this cycle is the timestamp of this observation, the reading of the clock
  when the query is over; (b) on a transient error the loop goes on to step (d) with the
  previous known state and fee, which is pending; (c) a \<open>success\<close> or \<open>failed\<close> status
  is handed to \<open>onProgress\<close> and returned at once; otherwise the status observed is the
  current one in steps (d) to (g).
\<close>

definition poll_cycle ::
  "polling_policy \<Rightarrow> provider \<Rightarrow> bool \<Rightarrow> js_string \<Rightarrow> rat \<Rightarrow> rat \<Rightarrow> session
     \<Rightarrow> ((monitor_error + transaction_status) \<times> session) + session" where
  "poll_cycle policy provider onProgress ident start deadline s =
     (case provider (queries s) of
        (reply, latency) \<Rightarrow>
          let s1 = s\<lparr>now := now s + latency, queries := Suc (queries s)\<rparr>
          in case reply of
               Status st f \<Rightarrow>
                 let status = \<lparr>tx_identifier = ident, state = st, observedAt = now s1, fee = f\<rparr>
                 in if st = Success \<or> st = Failed then
                      Inl (Inr status, deliver onProgress status (s1\<lparr>known := status\<rparr>))
                    else pending_step policy onProgress ident start deadline status s1
             | TransientError \<Rightarrow>
                 pending_step policy onProgress ident start deadline
                   ((known s1)\<lparr>observedAt := now s1\<rparr>) s1)"

text \<open>
  Modelled from the spec: step (h), the loop repeats from (a) until a cycle produces the
  final result. A loop that never ends has the value \<open>None\<close>.
\<close>

partial_function (option) monitor_loop ::
  "polling_policy \<Rightarrow> provider \<Rightarrow> bool \<Rightarrow> js_string \<Rightarrow> rat \<Rightarrow> rat \<Rightarrow> session
     \<Rightarrow> ((monitor_error + transaction_status) \<times> session) option" where
  "monitor_loop policy provider onProgress ident start deadline s =
     (case poll_cycle policy provider onProgress ident start deadline s of
        Inl result \<Rightarrow> Some result
      | Inr s' \<Rightarrow> monitor_loop policy provider onProgress ident start deadline s')"

text \<open>
  Modelled from the spec: \<open>monitor(identifier, onProgress?)\<close>, the
  \<open>monitorTransaction\<close> that is not part of the sources, invoked when the clock reads
  \<open>t0\<close>. An empty identifier fails fast with no query; otherwise the deadline is
  \<open>now + timeoutMs\<close>, the interval starts at \<open>initialIntervalMs\<close>, and nothing is known
  of the transaction but that it is pending.
\<close>

definition monitor ::
  "polling_policy \<Rightarrow> provider \<Rightarrow> bool \<Rightarrow> js_string \<Rightarrow> rat
     \<Rightarrow> ((monitor_error + transaction_status) \<times> session) option" where
  "monitor policy provider onProgress ident t0 =
     (let s0 = \<lparr>now = t0, interval = initialIntervalMs policy, queries = 0,
                known = \<lparr>tx_identifier = ident, state = Pending, observedAt = t0, fee = None\<rparr>,
                delivered = [], waited = []\<rparr>
      in if ident = [] then Some (Inl InvalidIdentifier, s0)
         else monitor_loop policy provider onProgress ident t0 (t0 + timeoutMs policy) s0)"

section \<open>Notions of the specification\<close>

text \<open>An address is empty or whitespace-only: every code unit of it is white space.\<close>

definition blank :: "js_string \<Rightarrow> bool" where
  "blank s = list_all is_ws s"

text \<open>A service and an SDK on which every operation succeeds, to run the functions on.\<close>

definition demo_service :: service where
  "demo_service = \<lparr>factoryContractId = lit ''CFACTORY'', networkPassphrase = lit ''Test SDF Network''\<rparr>"

definition accepting_env :: sdk_env where
  "accepting_env =
     \<lparr>throws = (\<lambda>c. None), simulation_error = None, prepared_hash = lit ''9f86d081'',
      date_now = 1700000000000\<rparr>"

text \<open>
  An SDK that rejects the empty address, where conversion to an address value and the
  account lookup are concerned, and accepts everything else.
\<close>

definition strict_env :: sdk_env where
  "strict_env =
     accepting_env\<lparr>throws := (\<lambda>c. case c of
         NativeToScVal (Str a) TAddress \<Rightarrow>
           if a = [] then Some (JsError (lit ''Unsupported address type'')) else None
       | GetAccount a \<Rightarrow> if a = [] then Some (JsError (lit ''Account not found'')) else None
       | _ \<Rightarrow> None)\<rparr>"

text \<open>Deployment parameters without metadata, to run \<open>deployToken\<close> on.\<close>

definition demo_params :: "unit token_deploy_params" where
  "demo_params =
     \<lparr>name = lit ''Nova'', symbol = lit ''NVA'', decimals = Fin 7, initialSupply = lit ''1000'',
      adminWallet = lit ''GADMIN'', metadata = JUndefined\<rparr>"

text \<open>An RPC server whose simulation reports a missing authorisation.\<close>

definition unauthorized_env :: sdk_env where
  "unauthorized_env = accepting_env\<lparr>simulation_error := Some (lit ''missing auth entry'')\<rparr>"

text \<open>An RPC server whose simulation fails over the fee, with no word of authorisation.\<close>

definition fee_env :: sdk_env where
  "fee_env = accepting_env\<lparr>simulation_error := Some (lit ''Invalid amount of fee'')\<rparr>"

text \<open>An RPC server that does not find the account.\<close>

definition offline_env :: sdk_env where
  "offline_env =
     accepting_env\<lparr>throws := (\<lambda>c. case c of
         GetAccount a \<Rightarrow> Some (JsError (lit ''Account not found''))
       | _ \<Rightarrow> None)\<rparr>"

text \<open>An SDK whose simulation throws a value that is not an \<open>Error\<close>.\<close>

definition aborting_env :: sdk_env where
  "aborting_env =
     accepting_env\<lparr>throws := (\<lambda>c. case c of SimulateTransaction \<Rightarrow> Some NonError | _ \<Rightarrow> None)\<rparr>"

text \<open>
  A policy that makes progress and respects its own cap: a positive first interval, not
  above the maximum, a multiplier that does not shrink the interval, and a timeout that is
  not negative.
\<close>

definition sane_policy :: "polling_policy \<Rightarrow> bool" where
  "sane_policy p \<longleftrightarrow>
     0 < initialIntervalMs p \<and> initialIntervalMs p \<le> maxIntervalMs p \<and>
     1 \<le> backoffMultiplier p \<and> 0 \<le> timeoutMs p"

text \<open>Each interval of the sequence is \<open>min (previous * backoffMultiplier) maxIntervalMs\<close>.\<close>

fun backoff_chain :: "polling_policy \<Rightarrow> rat list \<Rightarrow> bool" where
  "backoff_chain p (x # y # zs) =
     (y = min (x * backoffMultiplier p) (maxIntervalMs p) \<and> backoff_chain p (y # zs))"
| "backoff_chain p ws = True"

text \<open>A provider that answers at once, and always that the transaction is pending.\<close>

definition pending_provider :: provider where
  "pending_provider n = (Status Pending None, 0)"

text \<open>A provider whose every query fails at once with a transient error.\<close>

definition failing_provider :: provider where
  "failing_provider n = (TransientError, 0)"

text \<open>A provider that takes \<open>100\<close> seconds to answer that the transaction is pending.\<close>

definition slow_provider :: provider where
  "slow_provider n = (Status Pending None, 100000)"

text \<open>A provider that reports success, a quarter of a second after it is asked.\<close>

definition succeeding_provider :: provider where
  "succeeding_provider n = (Status Success (Some 100), 250)"


section \<open>Strings and numbers\<close>

lemma dropWhile_rev_Nil: "dropWhile P (rev xs) = [] \<longleftrightarrow> list_all P xs"
  by (simp add: dropWhile_eq_Nil_conv list_all_iff)

lemma dropWhile_all_iff: "list_all P (dropWhile P xs) \<longleftrightarrow> list_all P xs"
  by (induction xs) auto

lemma trim_Nil_iff: "trim s = [] \<longleftrightarrow> blank s"
  unfolding trim_def blank_def rev_is_Nil_conv dropWhile_rev_Nil dropWhile_all_iff ..

lemma guard_blank: "(s = [] \<or> trim s = []) \<longleftrightarrow> blank s"
  using trim_Nil_iff [of s] by (auto simp: blank_def)

lemma le_zero_iff: "\<not> isNaN x \<Longrightarrow> le_zero x \<longleftrightarrow> \<not> gt_zero x"
  by (cases x) (auto simp: isNaN_def le_zero_def gt_zero_def)

lemma amount_guard:
  "(amount = [] \<or> isNaN (Number amount) \<or> le_zero (Number amount)) \<longleftrightarrow>
   (amount = [] \<or> isNaN (Number amount) \<or> \<not> gt_zero (Number amount))"
  using le_zero_iff [of "Number amount"] by blast

lemma starts_with_iff: "starts_with s p \<longleftrightarrow> (\<exists>post. s = p @ post)"
  by (induction s p rule: starts_with.induct) auto

lemma str_includes_iff: "str_includes s sub \<longleftrightarrow> (\<exists>pre post. s = pre @ sub @ post)"
proof (induction s)
  case Nil
  then show ?case by auto
next
  case (Cons c cs)
  show ?case
  proof
    assume "str_includes (c # cs) sub"
    then consider "starts_with (c # cs) sub" | "str_includes cs sub" by auto
    then show "\<exists>pre post. c # cs = pre @ sub @ post"
    proof cases
      case 1
      then obtain post where "c # cs = [] @ sub @ post" by (auto simp: starts_with_iff)
      then show ?thesis by blast
    next
      case 2
      with Cons obtain pre post where "cs = pre @ sub @ post" by blast
      then have "c # cs = (c # pre) @ sub @ post" by simp
      then show ?thesis by blast
    qed
  next
    assume "\<exists>pre post. c # cs = pre @ sub @ post"
    then obtain pre post where eq: "c # cs = pre @ sub @ post" by blast
    show "str_includes (c # cs) sub"
    proof (cases pre)
      case Nil
      with eq have "starts_with (c # cs) sub" by (auto simp: starts_with_iff)
      then show ?thesis by simp
    next
      case (Cons a pre')
      with eq have "cs = pre' @ sub @ post" by simp
      with Cons.IH have "str_includes cs sub" by blast
      then show ?thesis by simp
    qed
  qed
qed

section \<open>The SDK trace\<close>

lemma sdk_seq_trace: "\<exists>rest. snd (sdk_seq env cs tr) = tr @ rest"
proof (induction cs arbitrary: tr)
  case Nil
  then show ?case by simp
next
  case (Cons c cs)
  show ?case
  proof (cases "throws env c")
    case None
    from Cons [of "tr @ [c]"] obtain rest where "snd (sdk_seq env cs (tr @ [c])) = (tr @ [c]) @ rest" ..
    with None show ?thesis by simp
  next
    case (Some e)
    then show ?thesis by simp
  qed
qed

lemma sdk_seq_first: "\<exists>rest. snd (sdk_seq env (c # cs) tr) = tr @ c # rest"
proof (cases "throws env c")
  case None
  from sdk_seq_trace [of env cs "tr @ [c]"] obtain rest
    where "snd (sdk_seq env cs (tr @ [c])) = (tr @ [c]) @ rest" ..
  with None show ?thesis by simp
next
  case (Some e)
  then show ?thesis by simp
qed

lemma sdk_seq_thrown:
  "sdk_seq env cs tr = (Some e, tr') \<Longrightarrow> \<exists>c \<in> set cs. throws env c = Some e \<and> c \<in> set tr'"
proof (induction cs arbitrary: tr)
  case Nil
  then show ?case by simp
next
  case (Cons c cs)
  then show ?case by (cases "throws env c") auto
qed

lemma sdk_seq_all_ok:
  "\<forall>c \<in> set cs. throws env c = None \<Longrightarrow> sdk_seq env cs tr = (None, tr @ cs)"
  by (induction cs arbitrary: tr) auto

section \<open>Minting\<close>

lemma catch_token_required:
  "mint_catch (JsError (lit ''Token address is required'')) =
     JsError (lit ''Minting failed: Token address is required'')"
  by (simp add: mint_catch_def lit_def)

lemma catch_recipient_required:
  "mint_catch (JsError (lit ''Recipient address is required'')) =
     JsError (lit ''Minting failed: Recipient address is required'')"
  by (simp add: mint_catch_def lit_def)

lemma catch_admin_required:
  "mint_catch (JsError (lit ''Admin address is required'')) =
     JsError (lit ''Minting failed: Admin address is required'')"
  by (simp add: mint_catch_def lit_def)

lemma catch_invalid_amount:
  "mint_catch (JsError (lit ''Invalid amount: must be a positive number'')) =
     JsError (lit ''Invalid amount: must be a positive number'')"
  by (simp add: mint_catch_def lit_def)

lemma mint_validate_blank:
  "mint_validate token recipient amount admin =
     (if blank token then Some (JsError (lit ''Token address is required''))
      else if blank recipient then Some (JsError (lit ''Recipient address is required''))
      else if blank admin then Some (JsError (lit ''Admin address is required''))
      else if amount = [] \<or> isNaN (Number amount) \<or> \<not> gt_zero (Number amount)
        then Some (JsError (lit ''Invalid amount: must be a positive number''))
      else None)"
  unfolding mint_validate_def guard_blank amount_guard ..

lemma mint_passed_guards:
  assumes "mint_validate token recipient amount admin = None"
  shows "\<exists>rest. snd (mintTokens svc env token recipient amount admin) = NewContract token # rest"
proof -
  obtain r tr where seq: "sdk_seq env (mint_calls svc token recipient amount admin) [] = (r, tr)"
    by (cases "sdk_seq env (mint_calls svc token recipient amount admin) []")
  have "\<exists>rest. snd (sdk_seq env (mint_calls svc token recipient amount admin) []) =
          [] @ NewContract token # rest"
    unfolding mint_calls_def by (rule sdk_seq_first)
  with seq obtain rest where tr: "tr = NewContract token # rest"
    by auto
  obtain r2 tr2 where seq2: "sdk_seq env [AssembleTransaction, TransactionHash] tr = (r2, tr2)"
    by (cases "sdk_seq env [AssembleTransaction, TransactionHash] tr")
  from sdk_seq_trace [of env "[AssembleTransaction, TransactionHash]" tr]
  obtain rest2 where "snd (sdk_seq env [AssembleTransaction, TransactionHash] tr) = tr @ rest2" ..
  with seq2 tr have tr2: "tr2 = NewContract token # rest @ rest2"
    by simp
  show ?thesis
    unfolding mintTokens_def mint_try_def assms seq
    using seq2 tr tr2
    by (simp split: option.splits sum.splits prod.splits)
qed

text \<open>
  C1. If the token address, the recipient or the admin address is empty or whitespace-only,
  or the amount is missing, not numeric or not strictly positive, \<open>mintTokens\<close> fails with
  the validation error of the first guard that rejects, and has invoked no SDK operation;
  with all four inputs valid no guard throws, and the call goes on to the SDK, whose first
  operation is the construction of the token contract.
\<close>

theorem mintTokens_validation:
  "(blank token \<or> blank recipient \<or> blank admin \<or> amount = [] \<or> isNaN (Number amount)
      \<or> \<not> gt_zero (Number amount) \<longrightarrow>
    mintTokens svc env token recipient amount admin =
      (Inl (JsError
         (if blank token then lit ''Minting failed: Token address is required''
          else if blank recipient then lit ''Minting failed: Recipient address is required''
          else if blank admin then lit ''Minting failed: Admin address is required''
          else lit ''Invalid amount: must be a positive number'')), [])) \<and>
   (\<not> (blank token \<or> blank recipient \<or> blank admin \<or> amount = [] \<or> isNaN (Number amount)
      \<or> \<not> gt_zero (Number amount)) \<longrightarrow>
    mint_validate token recipient amount admin = None \<and>
    (\<exists>rest. snd (mintTokens svc env token recipient amount admin) = NewContract token # rest))"
proof (intro conjI impI)
  assume bad: "blank token \<or> blank recipient \<or> blank admin \<or> amount = [] \<or> isNaN (Number amount)
      \<or> \<not> gt_zero (Number amount)"
  then show "mintTokens svc env token recipient amount admin =
      (Inl (JsError
         (if blank token then lit ''Minting failed: Token address is required''
          else if blank recipient then lit ''Minting failed: Recipient address is required''
          else if blank admin then lit ''Minting failed: Admin address is required''
          else lit ''Invalid amount: must be a positive number'')), [])"
    by (auto simp: mintTokens_def mint_try_def mint_validate_blank catch_token_required
        catch_recipient_required catch_admin_required catch_invalid_amount)
next
  assume ok: "\<not> (blank token \<or> blank recipient \<or> blank admin \<or> amount = [] \<or> isNaN (Number amount)
      \<or> \<not> gt_zero (Number amount))"
  then show v: "mint_validate token recipient amount admin = None"
    by (simp add: mint_validate_blank)
  then show "\<exists>rest. snd (mintTokens svc env token recipient amount admin) = NewContract token # rest"
    by (rule mint_passed_guards)
qed

lemma number_5: "Number (lit ''5'') = Fin 5"
  by (simp add: Number_def lit_def trim_def is_ws_def unsigned_decimal_def is_digit_def
      exponent_part_def decimal_value_def pow10_def)

lemma gt_zero_5: "gt_zero (Fin 5)"
  by (simp add: gt_zero_def underflow_bound_def)

lemma blank_examples: "\<not> blank (lit ''CTOKEN'')" "\<not> blank (lit ''GRECIP'')" "\<not> blank (lit ''GADMIN'')" "blank (lit ''  '')"
  by (simp_all add: blank_def lit_def is_ws_def)

lemma number_minus_5: "Number (lit ''-5'') = Fin (- 5)"
  by (simp add: Number_def lit_def trim_def is_ws_def unsigned_decimal_def is_digit_def
      exponent_part_def decimal_value_def pow10_def negate_def)

lemma not_gt_zero_minus_5: "\<not> gt_zero (Fin (- 5))"
  by (simp add: gt_zero_def underflow_bound_def)

theorem mintTokens_validation_witness:
  "mintTokens demo_service accepting_env (lit ''  '') (lit ''GRECIP'') (lit ''5'') (lit ''GADMIN'') =
     (Inl (JsError (lit ''Minting failed: Token address is required'')), []) \<and>
   mintTokens demo_service accepting_env (lit ''CTOKEN'') (lit ''GRECIP'') (lit ''-5'') (lit ''GADMIN'') =
     (Inl (JsError (lit ''Invalid amount: must be a positive number'')), []) \<and>
   mint_validate (lit ''CTOKEN'') (lit ''GRECIP'') (lit ''5'') (lit ''GADMIN'') = None \<and>
   (\<exists>rest. snd (mintTokens demo_service accepting_env (lit ''CTOKEN'') (lit ''GRECIP'') (lit ''5'')
       (lit ''GADMIN'')) = NewContract (lit ''CTOKEN'') # rest)"
proof -
  have five: "lit ''5'' \<noteq> []" and minus: "lit ''-5'' \<noteq> []"
    by (simp_all add: lit_def)
  from mintTokens_validation [of "lit ''  ''" "lit ''GRECIP''" "lit ''GADMIN''" "lit ''5''"
      demo_service accepting_env]
  have 1: "mintTokens demo_service accepting_env (lit ''  '') (lit ''GRECIP'') (lit ''5'') (lit ''GADMIN'') =
     (Inl (JsError (lit ''Minting failed: Token address is required'')), [])"
    by (simp add: blank_examples)
  from mintTokens_validation [of "lit ''CTOKEN''" "lit ''GRECIP''" "lit ''GADMIN''" "lit ''-5''"
      demo_service accepting_env]
  have 2: "mintTokens demo_service accepting_env (lit ''CTOKEN'') (lit ''GRECIP'') (lit ''-5'') (lit ''GADMIN'') =
     (Inl (JsError (lit ''Invalid amount: must be a positive number'')), [])"
    by (simp add: blank_examples number_minus_5 not_gt_zero_minus_5)
  from mintTokens_validation [of "lit ''CTOKEN''" "lit ''GRECIP''" "lit ''GADMIN''" "lit ''5''"
      demo_service accepting_env]
  have 3: "mint_validate (lit ''CTOKEN'') (lit ''GRECIP'') (lit ''5'') (lit ''GADMIN'') = None \<and>
   (\<exists>rest. snd (mintTokens demo_service accepting_env (lit ''CTOKEN'') (lit ''GRECIP'') (lit ''5'')
       (lit ''GADMIN'')) = NewContract (lit ''CTOKEN'') # rest)"
    by (simp add: blank_examples number_5 gt_zero_5 five isNaN_def)
  from 1 2 3 show ?thesis by blast
qed

lemma mint_try_simulation_auth:
  assumes v: "mint_validate token recipient amount admin = None"
    and ok: "\<forall>c \<in> set (mint_calls svc token recipient amount admin). throws env c = None"
    and sim: "simulation_error env = Some err"
    and auth: "str_includes err (lit ''unauthorized'') \<or> str_includes err (lit ''auth'')"
  shows "mint_try svc env token recipient amount admin =
     (Inl (JsError (lit ''Unauthorized: Admin authorization required for minting'')),
      mint_calls svc token recipient amount admin)"
  using auth by (simp add: mint_try_def v sim sdk_seq_all_ok [OF ok])

lemma catch_admin_authorization:
  "mint_catch (JsError (lit ''Unauthorized: Admin authorization required for minting'')) =
     JsError (lit ''Unauthorized: Only the admin can mint tokens'')"
  by (simp add: mint_catch_def lit_def)

lemma mint_try_invalid_amount:
  assumes "mint_validate token recipient amount admin =
      Some (JsError (lit ''Invalid amount: must be a positive number''))"
  shows "mint_try svc env token recipient amount admin =
      (Inl (JsError (lit ''Invalid amount: must be a positive number'')), [])"
  by (simp add: mint_try_def assms)

text \<open>
  C10, as the code has it. A failing \<open>mintTokens\<close> surfaces an error that is a function of
  what its \<open>try\<close> block threw, decided by the message: an \<open>Error\<close> whose message
  contains \<open>unauthorized\<close> or \<open>Unauthorized\<close> becomes
  \<open>Unauthorized: Only the admin can mint tokens\<close>; otherwise one whose message contains
  \<open>Invalid amount\<close>, wherever it was thrown, is rethrown as it is; an \<open>Error\<close> whose
  message contains none of the three becomes \<open>Minting failed: \<close> followed by its
  message; a thrown value that is not an \<open>Error\<close> becomes
  \<open>Minting failed: Unknown error\<close>. In particular the error of the amount guard surfaces
  unchanged, and a simulation error that mentions \<open>unauthorized\<close> or \<open>auth\<close> surfaces
  as \<open>Unauthorized: Only the admin can mint tokens\<close>.
\<close>

theorem mintTokens_error_classification:
  assumes fails: "mintTokens svc env token recipient amount admin = (Inl e, tr)"
  shows "(\<exists>c. mint_try svc env token recipient amount admin = (Inl c, tr) \<and>
       (case c of
          JsError m \<Rightarrow>
            if str_includes m (lit ''unauthorized'') \<or> str_includes m (lit ''Unauthorized'') then
              e = JsError (lit ''Unauthorized: Only the admin can mint tokens'')
            else if str_includes m (lit ''Invalid amount'') then e = JsError m
            else e = JsError (lit ''Minting failed: '' @ m)
        | NonError \<Rightarrow> e = JsError (lit ''Minting failed: Unknown error''))) \<and>
     (mint_validate token recipient amount admin =
        Some (JsError (lit ''Invalid amount: must be a positive number'')) \<longrightarrow>
      e = JsError (lit ''Invalid amount: must be a positive number'')) \<and>
     (\<forall>err. mint_validate token recipient amount admin = None \<and>
        (\<forall>c \<in> set (mint_calls svc token recipient amount admin). throws env c = None) \<and>
        simulation_error env = Some err \<and>
        (str_includes err (lit ''unauthorized'') \<or> str_includes err (lit ''auth'')) \<longrightarrow>
      e = JsError (lit ''Unauthorized: Only the admin can mint tokens''))"
proof -
  obtain r tr' where attempt: "mint_try svc env token recipient amount admin = (r, tr')"
    by (cases "mint_try svc env token recipient amount admin")
  with fails obtain c where r: "r = Inl c" and e: "e = mint_catch c" and tr: "tr' = tr"
    by (cases r) (simp_all add: mintTokens_def)
  have 1: "\<exists>c. mint_try svc env token recipient amount admin = (Inl c, tr) \<and>
       (case c of
          JsError m \<Rightarrow>
            if str_includes m (lit ''unauthorized'') \<or> str_includes m (lit ''Unauthorized'') then
              e = JsError (lit ''Unauthorized: Only the admin can mint tokens'')
            else if str_includes m (lit ''Invalid amount'') then e = JsError m
            else e = JsError (lit ''Minting failed: '' @ m)
        | NonError \<Rightarrow> e = JsError (lit ''Minting failed: Unknown error''))"
  proof (intro exI conjI)
    show "mint_try svc env token recipient amount admin = (Inl c, tr)"
      using attempt r tr by simp
    show "case c of
          JsError m \<Rightarrow>
            if str_includes m (lit ''unauthorized'') \<or> str_includes m (lit ''Unauthorized'') then
              e = JsError (lit ''Unauthorized: Only the admin can mint tokens'')
            else if str_includes m (lit ''Invalid amount'') then e = JsError m
            else e = JsError (lit ''Minting failed: '' @ m)
        | NonError \<Rightarrow> e = JsError (lit ''Minting failed: Unknown error'')"
      unfolding e mint_catch_def by (cases c) simp_all
  qed
  have 2: "e = JsError (lit ''Invalid amount: must be a positive number'')"
    if "mint_validate token recipient amount admin =
        Some (JsError (lit ''Invalid amount: must be a positive number''))"
  proof -
    from mint_try_invalid_amount [OF that, of svc env] attempt r
    have "c = JsError (lit ''Invalid amount: must be a positive number'')"
      by simp
    with e show ?thesis
      by (simp add: catch_invalid_amount)
  qed
  have 3: "e = JsError (lit ''Unauthorized: Only the admin can mint tokens'')"
    if "mint_validate token recipient amount admin = None \<and>
        (\<forall>c \<in> set (mint_calls svc token recipient amount admin). throws env c = None) \<and>
        simulation_error env = Some err \<and>
        (str_includes err (lit ''unauthorized'') \<or> str_includes err (lit ''auth''))" for err
  proof -
    from that have "mint_try svc env token recipient amount admin =
     (Inl (JsError (lit ''Unauthorized: Admin authorization required for minting'')),
      mint_calls svc token recipient amount admin)"
      by (intro mint_try_simulation_auth) blast+
    with attempt r have "c = JsError (lit ''Unauthorized: Admin authorization required for minting'')"
      by simp
    with e show ?thesis
      by (simp add: catch_admin_authorization)
  qed
  from 1 2 3 show ?thesis by blast
qed


lemma mint_validate_demo:
  "mint_validate (lit ''CTOKEN'') (lit ''GRECIP'') (lit ''5'') (lit ''GADMIN'') = None"
  by (simp add: mint_validate_blank blank_examples number_5 gt_zero_5 isNaN_def) (simp add: lit_def)

lemma mint_unauthorized_run:
  "mintTokens demo_service unauthorized_env (lit ''CTOKEN'') (lit ''GRECIP'') (lit ''5'') (lit ''GADMIN'') =
     (Inl (JsError (lit ''Unauthorized: Only the admin can mint tokens'')),
      mint_calls demo_service (lit ''CTOKEN'') (lit ''GRECIP'') (lit ''5'') (lit ''GADMIN''))"
proof -
  have "mint_try demo_service unauthorized_env (lit ''CTOKEN'') (lit ''GRECIP'') (lit ''5'') (lit ''GADMIN'') =
     (Inl (JsError (lit ''Unauthorized: Admin authorization required for minting'')),
      mint_calls demo_service (lit ''CTOKEN'') (lit ''GRECIP'') (lit ''5'') (lit ''GADMIN''))"
  proof (rule mint_try_simulation_auth)
    show "mint_validate (lit ''CTOKEN'') (lit ''GRECIP'') (lit ''5'') (lit ''GADMIN'') = None"
      by (rule mint_validate_demo)
    show "\<forall>c \<in> set (mint_calls demo_service (lit ''CTOKEN'') (lit ''GRECIP'') (lit ''5'') (lit ''GADMIN'')).
        throws unauthorized_env c = None"
      by (simp add: unauthorized_env_def accepting_env_def)
    show "simulation_error unauthorized_env = Some (lit ''missing auth entry'')"
      by (simp add: unauthorized_env_def)
    show "str_includes (lit ''missing auth entry'') (lit ''unauthorized'') \<or>
        str_includes (lit ''missing auth entry'') (lit ''auth'')"
      by (simp add: lit_def)
  qed
  then show ?thesis
    by (simp add: mintTokens_def catch_admin_authorization)
qed

lemma mint_offline_run:
  "mintTokens demo_service offline_env (lit ''CTOKEN'') (lit ''GRECIP'') (lit ''5'') (lit ''GADMIN'') =
     (Inl (JsError (lit ''Minting failed: Account not found'')),
      [NewContract (lit ''CTOKEN''),
       NativeToScVal (Str (lit ''GRECIP'')) TAddress,
       NativeToScVal (Str (lit ''5'')) TI128,
       NativeToScVal (Str (lit ''1000000'')) TI128,
       ContractCall (lit ''mint_tokens''),
       GetAccount (lit ''GADMIN'')])"
proof -
  have "mint_catch (JsError (lit ''Account not found'')) =
      JsError (lit ''Minting failed: Account not found'')"
    by (simp add: mint_catch_def lit_def)
  then show ?thesis
    by (simp add: mintTokens_def mint_try_def mint_validate_demo mint_calls_def mintingFee_def
        offline_env_def accepting_env_def)
qed

lemma mint_aborting_run:
  "mintTokens demo_service aborting_env (lit ''CTOKEN'') (lit ''GRECIP'') (lit ''5'') (lit ''GADMIN'') =
     (Inl (JsError (lit ''Minting failed: Unknown error'')),
      mint_calls demo_service (lit ''CTOKEN'') (lit ''GRECIP'') (lit ''5'') (lit ''GADMIN''))"
  by (simp add: mintTokens_def mint_try_def mint_validate_demo mint_calls_def mintingFee_def
      aborting_env_def accepting_env_def mint_catch_def)

theorem mintTokens_error_classification_witness:
  "mintTokens demo_service unauthorized_env (lit ''CTOKEN'') (lit ''GRECIP'') (lit ''5'') (lit ''GADMIN'') =
     (Inl (JsError (lit ''Unauthorized: Only the admin can mint tokens'')),
      mint_calls demo_service (lit ''CTOKEN'') (lit ''GRECIP'') (lit ''5'') (lit ''GADMIN'')) \<and>
   (\<exists>c. mint_try demo_service unauthorized_env (lit ''CTOKEN'') (lit ''GRECIP'') (lit ''5'') (lit ''GADMIN'') =
     (Inl c, mint_calls demo_service (lit ''CTOKEN'') (lit ''GRECIP'') (lit ''5'') (lit ''GADMIN''))) \<and>
   mintTokens demo_service offline_env (lit ''CTOKEN'') (lit ''GRECIP'') (lit ''5'') (lit ''GADMIN'') =
     (Inl (JsError (lit ''Minting failed: Account not found'')),
      [NewContract (lit ''CTOKEN''),
       NativeToScVal (Str (lit ''GRECIP'')) TAddress,
       NativeToScVal (Str (lit ''5'')) TI128,
       NativeToScVal (Str (lit ''1000000'')) TI128,
       ContractCall (lit ''mint_tokens''),
       GetAccount (lit ''GADMIN'')]) \<and>
   (\<exists>c. mint_try demo_service offline_env (lit ''CTOKEN'') (lit ''GRECIP'') (lit ''5'') (lit ''GADMIN'') =
     (Inl c,
      [NewContract (lit ''CTOKEN''),
       NativeToScVal (Str (lit ''GRECIP'')) TAddress,
       NativeToScVal (Str (lit ''5'')) TI128,
       NativeToScVal (Str (lit ''1000000'')) TI128,
       ContractCall (lit ''mint_tokens''),
       GetAccount (lit ''GADMIN'')])) \<and>
   mintTokens demo_service aborting_env (lit ''CTOKEN'') (lit ''GRECIP'') (lit ''5'') (lit ''GADMIN'') =
     (Inl (JsError (lit ''Minting failed: Unknown error'')),
      mint_calls demo_service (lit ''CTOKEN'') (lit ''GRECIP'') (lit ''5'') (lit ''GADMIN'')) \<and>
   (\<exists>c. mint_try demo_service aborting_env (lit ''CTOKEN'') (lit ''GRECIP'') (lit ''5'') (lit ''GADMIN'') =
     (Inl c, mint_calls demo_service (lit ''CTOKEN'') (lit ''GRECIP'') (lit ''5'') (lit ''GADMIN'')))"
  using mintTokens_error_classification [OF mint_unauthorized_run]
    mintTokens_error_classification [OF mint_offline_run]
    mintTokens_error_classification [OF mint_aborting_run]
    mint_unauthorized_run mint_offline_run mint_aborting_run
  by blast

lemma mint_fee_run:
  "mintTokens demo_service fee_env (lit ''CTOKEN'') (lit ''GRECIP'') (lit ''5'') (lit ''GADMIN'') =
     (Inl (JsError (lit ''Simulation failed: Invalid amount of fee'')),
      [NewContract (lit ''CTOKEN''),
       NativeToScVal (Str (lit ''GRECIP'')) TAddress,
       NativeToScVal (Str (lit ''5'')) TI128,
       NativeToScVal (Str (lit ''1000000'')) TI128,
       ContractCall (lit ''mint_tokens''),
       GetAccount (lit ''GADMIN''),
       BuildTransaction (lit ''Test SDF Network''),
       SimulateTransaction])"
proof -
  have sim: "\<not> str_includes (lit ''Invalid amount of fee'') (lit ''unauthorized'')"
    "\<not> str_includes (lit ''Invalid amount of fee'') (lit ''auth'')"
    by (simp_all add: lit_def)
  have caught: "mint_catch (JsError (lit ''Simulation failed: '' @ lit ''Invalid amount of fee'')) =
      JsError (lit ''Simulation failed: Invalid amount of fee'')"
    by (simp add: mint_catch_def lit_def)
  show ?thesis
    by (simp add: mintTokens_def mint_try_def mint_validate_demo mint_calls_def mintingFee_def
        fee_env_def accepting_env_def demo_service_def sim caught)
qed

text \<open>
  C10, as stated, fails. A simulation error \<open>Invalid amount of fee\<close> passes the guards, is
  thrown as \<open>Simulation failed: Invalid amount of fee\<close>, which is no validation error
  and mentions no authorisation, and surfaces as it is, not wrapped as
  \<open>Minting failed: Simulation failed: Invalid amount of fee\<close>.
\<close>

theorem mintTokens_error_classification_counterexample:
  "mint_validate (lit ''CTOKEN'') (lit ''GRECIP'') (lit ''5'') (lit ''GADMIN'') = None \<and>
   mintTokens demo_service fee_env (lit ''CTOKEN'') (lit ''GRECIP'') (lit ''5'') (lit ''GADMIN'') =
     (Inl (JsError (lit ''Simulation failed: Invalid amount of fee'')),
      [NewContract (lit ''CTOKEN''),
       NativeToScVal (Str (lit ''GRECIP'')) TAddress,
       NativeToScVal (Str (lit ''5'')) TI128,
       NativeToScVal (Str (lit ''1000000'')) TI128,
       ContractCall (lit ''mint_tokens''),
       GetAccount (lit ''GADMIN''),
       BuildTransaction (lit ''Test SDF Network''),
       SimulateTransaction]) \<and>
   JsError (lit ''Simulation failed: Invalid amount of fee'') \<noteq>
     JsError (lit ''Minting failed: Simulation failed: Invalid amount of fee'')"
  using mint_fee_run mint_validate_demo by (simp add: lit_def)

section \<open>Deployment\<close>

lemma deploy_first_call:
  "\<exists>rest. snd (deployToken svc env params src) = NewContract (factoryContractId svc) # rest"
proof -
  obtain r tr where seq: "sdk_seq env (deploy_calls svc params src) [] = (r, tr)"
    by (cases "sdk_seq env (deploy_calls svc params src) []")
  have "\<exists>rest. snd (sdk_seq env (deploy_calls svc params src) []) =
          [] @ NewContract (factoryContractId svc) # rest"
    unfolding deploy_calls_def by (rule sdk_seq_first)
  with seq obtain rest where tr: "tr = NewContract (factoryContractId svc) # rest"
    by auto
  obtain r2 tr2 where seq2: "sdk_seq env [AssembleTransaction, TransactionHash] tr = (r2, tr2)"
    by (cases "sdk_seq env [AssembleTransaction, TransactionHash] tr")
  from sdk_seq_trace [of env "[AssembleTransaction, TransactionHash]" tr]
  obtain rest2 where "snd (sdk_seq env [AssembleTransaction, TransactionHash] tr) = tr @ rest2" ..
  with seq2 tr have tr2: "tr2 = NewContract (factoryContractId svc) # rest @ rest2"
    by simp
  show ?thesis
    unfolding deployToken_def deploy_try_def seq
    using seq2 tr tr2
    by (simp split: option.splits sum.splits prod.splits)
qed

lemma deploy_try_failure:
  assumes "deploy_try svc env params src = (Inl t, tr)"
  shows "(\<exists>c \<in> set tr. throws env c = Some t) \<or>
         (\<exists>err. simulation_error env = Some err \<and> t = JsError (lit ''Simulation failed: '' @ err))"
proof -
  obtain r tr1 where seq: "sdk_seq env (deploy_calls svc params src) [] = (r, tr1)"
    by (cases "sdk_seq env (deploy_calls svc params src) []")
  show ?thesis
  proof (cases r)
    case (Some e)
    with seq assms have "t = e" "tr = tr1" by (simp_all add: deploy_try_def)
    with sdk_seq_thrown [of env _ "[]" e tr1] seq Some show ?thesis by blast
  next
    case None
    note r = this
    show ?thesis
    proof (cases "simulation_error env")
      case (Some err)
      with seq r assms show ?thesis by (simp add: deploy_try_def)
    next
      case None
      obtain r2 tr2 where seq2: "sdk_seq env [AssembleTransaction, TransactionHash] tr1 = (r2, tr2)"
        by (cases "sdk_seq env [AssembleTransaction, TransactionHash] tr1")
      with seq r None assms obtain "r2 = Some t" "tr = tr2"
        by (cases r2) (simp_all add: deploy_try_def)
      with sdk_seq_thrown [of env _ tr1 t tr2] seq2 show ?thesis by blast
    qed
  qed
qed

text \<open>
  C2, as the code has it. \<open>deployToken\<close> has no guard of its own: whatever its inputs,
  its first action is an SDK operation, the construction of the factory contract, and
  every failure it raises comes from the SDK: what an invoked operation threw, passed through
  \<open>handleError\<close>, or the simulation error of the RPC server.
\<close>

theorem deployToken_delegates:
  "(\<exists>rest. snd (deployToken svc env params src) = NewContract (factoryContractId svc) # rest) \<and>
   (\<forall>e. fst (deployToken svc env params src) = Inl e \<longrightarrow>
      (\<exists>c \<in> set (snd (deployToken svc env params src)). \<exists>t. throws env c = Some t \<and> e = handleError t) \<or>
      (\<exists>err. simulation_error env = Some err \<and> e = JsError (lit ''Simulation failed: '' @ err)))"
proof (intro conjI allI impI)
  show "\<exists>rest. snd (deployToken svc env params src) = NewContract (factoryContractId svc) # rest"
    by (rule deploy_first_call)
next
  fix e
  assume fail: "fst (deployToken svc env params src) = Inl e"
  obtain r tr where attempt: "deploy_try svc env params src = (r, tr)"
    by (cases "deploy_try svc env params src")
  with fail obtain t where r: "r = Inl t" and e: "e = handleError t"
    by (cases r) (simp_all add: deployToken_def)
  from attempt r have res: "snd (deployToken svc env params src) = tr"
    by (simp add: deployToken_def)
  from deploy_try_failure [of svc env params src t tr] attempt r
  consider "\<exists>c \<in> set tr. throws env c = Some t"
    | err where "simulation_error env = Some err" "t = JsError (lit ''Simulation failed: '' @ err)"
    by blast
  then show "(\<exists>c \<in> set (snd (deployToken svc env params src)). \<exists>t. throws env c = Some t \<and> e = handleError t) \<or>
      (\<exists>err. simulation_error env = Some err \<and> e = JsError (lit ''Simulation failed: '' @ err))"
  proof cases
    case 1
    with res e show ?thesis by blast
  next
    case 2
    with e show ?thesis by (simp add: handleError_def)
  qed
qed

lemma deploy_strict_run:
  "deployToken demo_service strict_env (demo_params\<lparr>adminWallet := []\<rparr>) [] =
     (Inl (JsError (lit ''Unsupported address type'')),
      [NewContract (lit ''CFACTORY''),
       NativeToScVal (Str (lit ''Nova'')) TString,
       NativeToScVal (Str (lit ''NVA'')) TString,
       NativeToScVal (Num (Fin 7)) TU32,
       NativeToScVal (Str (lit ''1000'')) TI128,
       NativeToScVal (Str []) TAddress])"
  by (simp add: deployToken_def deploy_try_def deploy_calls_def demo_service_def strict_env_def
      accepting_env_def demo_params_def handleError_def)

lemma deploy_accepting_run:
  "deployToken demo_service accepting_env (demo_params\<lparr>adminWallet := []\<rparr>) [] =
     (Inr \<lparr>tokenAddress = [], transactionHash = lit ''9f86d081'', totalFee = lit ''10000000'',
           timestamp = 1700000000000\<rparr>,
      [NewContract (lit ''CFACTORY''),
       NativeToScVal (Str (lit ''Nova'')) TString,
       NativeToScVal (Str (lit ''NVA'')) TString,
       NativeToScVal (Num (Fin 7)) TU32,
       NativeToScVal (Str (lit ''1000'')) TI128,
       NativeToScVal (Str []) TAddress,
       NativeToScVal (Num (Fin 10000000)) TI128,
       ContractCall (lit ''create_token''),
       GetAccount [],
       BuildTransaction (lit ''Test SDF Network''),
       SimulateTransaction, AssembleTransaction, TransactionHash])"
  by (simp add: deployToken_def deploy_try_def deploy_calls_def demo_service_def
      accepting_env_def demo_params_def calculateTotalFee_def truthy_def lit_def toString.simps)


text \<open>
  C2, as stated, fails on its own example. With an empty \<open>sourceAddress\<close> and an empty
  \<open>adminWallet\<close>, \<open>deployToken\<close> fails only where the SDK rejects the empty address,
  with the SDK's error and after six SDK operations; on an SDK that accepts, it succeeds.
\<close>

theorem deployToken_validation_counterexample:
  "deployToken demo_service strict_env (demo_params\<lparr>adminWallet := []\<rparr>) [] =
     (Inl (JsError (lit ''Unsupported address type'')),
      [NewContract (lit ''CFACTORY''),
       NativeToScVal (Str (lit ''Nova'')) TString,
       NativeToScVal (Str (lit ''NVA'')) TString,
       NativeToScVal (Num (Fin 7)) TU32,
       NativeToScVal (Str (lit ''1000'')) TI128,
       NativeToScVal (Str []) TAddress]) \<and>
   snd (deployToken demo_service strict_env (demo_params\<lparr>adminWallet := []\<rparr>) []) \<noteq> [] \<and>
   fst (deployToken demo_service accepting_env (demo_params\<lparr>adminWallet := []\<rparr>) []) =
     Inr \<lparr>tokenAddress = [], transactionHash = lit ''9f86d081'', totalFee = lit ''10000000'',
          timestamp = 1700000000000\<rparr>"
  by (simp add: deploy_strict_run deploy_accepting_run)

theorem deployToken_delegates_witness:
  "(\<exists>rest. snd (deployToken demo_service strict_env (demo_params\<lparr>adminWallet := []\<rparr>) []) =
      NewContract (lit ''CFACTORY'') # rest) \<and>
   fst (deployToken demo_service strict_env (demo_params\<lparr>adminWallet := []\<rparr>) []) =
      Inl (JsError (lit ''Unsupported address type'')) \<and>
   ((\<exists>c \<in> set (snd (deployToken demo_service strict_env (demo_params\<lparr>adminWallet := []\<rparr>) [])).
       \<exists>t. throws strict_env c = Some t \<and> JsError (lit ''Unsupported address type'') = handleError t) \<or>
    (\<exists>err. simulation_error strict_env = Some err \<and>
       JsError (lit ''Unsupported address type'') = JsError (lit ''Simulation failed: '' @ err)))"
proof -
  have run: "fst (deployToken demo_service strict_env (demo_params\<lparr>adminWallet := []\<rparr>) []) =
      Inl (JsError (lit ''Unsupported address type''))"
    by (simp add: deploy_strict_run)
  have svc: "factoryContractId demo_service = lit ''CFACTORY''"
    by (simp add: demo_service_def)
  from deployToken_delegates [of demo_service strict_env "demo_params\<lparr>adminWallet := []\<rparr>" "[]"]
    run svc
  show ?thesis by simp
qed




lemma deploy_metadata_run:
  "deployToken demo_service accepting_env (demo_params\<lparr>metadata := JObject ()\<rparr>) (lit ''GSOURCE'') =
     (Inr \<lparr>tokenAddress = [], transactionHash = lit ''9f86d081'', totalFee = lit ''15000000'',
           timestamp = 1700000000000\<rparr>,
      [NewContract (lit ''CFACTORY''),
       NativeToScVal (Str (lit ''Nova'')) TString,
       NativeToScVal (Str (lit ''NVA'')) TString,
       NativeToScVal (Num (Fin 7)) TU32,
       NativeToScVal (Str (lit ''1000'')) TI128,
       NativeToScVal (Str (lit ''GADMIN'')) TAddress,
       NativeToScVal (Num (Fin 15000000)) TI128,
       ContractCall (lit ''create_token''),
       GetAccount (lit ''GSOURCE''),
       BuildTransaction (lit ''Test SDF Network''),
       SimulateTransaction, AssembleTransaction, TransactionHash])"
  by (simp add: deployToken_def deploy_try_def deploy_calls_def demo_service_def
      accepting_env_def demo_params_def calculateTotalFee_def truthy_def lit_def toString.simps)




text \<open>
  C9. The result of a successful \<open>deployToken\<close> has the empty string as its
  \<open>tokenAddress\<close>.
\<close>

theorem deployToken_tokenAddress_empty:
  "deployToken svc env params src = (Inr res, tr) \<Longrightarrow> tokenAddress res = []"
  by (auto simp: deployToken_def deploy_try_def split: prod.splits option.splits sum.splits)

theorem deployToken_tokenAddress_empty_witness:
  "deployToken demo_service accepting_env (demo_params\<lparr>metadata := JObject ()\<rparr>) (lit ''GSOURCE'') =
     (Inr \<lparr>tokenAddress = [], transactionHash = lit ''9f86d081'', totalFee = lit ''15000000'',
           timestamp = 1700000000000\<rparr>,
      [NewContract (lit ''CFACTORY''),
       NativeToScVal (Str (lit ''Nova'')) TString,
       NativeToScVal (Str (lit ''NVA'')) TString,
       NativeToScVal (Num (Fin 7)) TU32,
       NativeToScVal (Str (lit ''1000'')) TI128,
       NativeToScVal (Str (lit ''GADMIN'')) TAddress,
       NativeToScVal (Num (Fin 15000000)) TI128,
       ContractCall (lit ''create_token''),
       GetAccount (lit ''GSOURCE''),
       BuildTransaction (lit ''Test SDF Network''),
       SimulateTransaction, AssembleTransaction, TransactionHash]) \<and>
   tokenAddress \<lparr>tokenAddress = [], transactionHash = lit ''9f86d081'', totalFee = lit ''15000000'',
           timestamp = 1700000000000\<rparr> = []"
  using deployToken_tokenAddress_empty [OF deploy_metadata_run] deploy_metadata_run by simp


section \<open>The polling loop\<close>

subsection \<open>Reasoning about the loop\<close>

lemma loop_rule:
  assumes run: "monitor_loop p prov cb ident start dl s = Some res"
    and init: "I s"
    and step: "\<And>s s'. I s \<Longrightarrow> poll_cycle p prov cb ident start dl s = Inr s' \<Longrightarrow> I s'"
    and fin: "\<And>s res. I s \<Longrightarrow> poll_cycle p prov cb ident start dl s = Inl res \<Longrightarrow> Q res"
  shows "Q res"
proof -
  let ?P = "\<lambda>p' prov' cb' ident' start' dl' s res.
    p' = p \<and> prov' = prov \<and> cb' = cb \<and> ident' = ident \<and> start' = start \<and> dl' = dl \<and> I s
      \<longrightarrow> Q res"
  have "?P p prov cb ident start dl s res"
  proof (rule monitor_loop.raw_induct [where P = ?P, OF _ run], intro impI, elim conjE)
    fix loop p' prov' cb' ident' start' dl' s res
    assume IH: "\<And>p' prov' cb' ident' start' dl' s res.
        loop p' prov' cb' ident' start' dl' s = Some res \<Longrightarrow> ?P p' prov' cb' ident' start' dl' s res"
      and unfold: "(case poll_cycle p' prov' cb' ident' start' dl' s of
            Inl result \<Rightarrow> Some result
          | Inr s' \<Rightarrow> loop p' prov' cb' ident' start' dl' s') = Some res"
      and eqs: "p' = p" "prov' = prov" "cb' = cb" "ident' = ident" "start' = start" "dl' = dl"
      and inv: "I s"
    show "Q res"
    proof (cases "poll_cycle p prov cb ident start dl s")
      case (Inl r)
      with unfold eqs have "r = res" by simp
      with Inl inv show ?thesis by (simp add: fin)
    next
      case (Inr s')
      with unfold eqs have "loop p prov cb ident start dl s' = Some res" by simp
      from IH [OF this] step [OF inv Inr] show ?thesis by simp
    qed
  qed
  with init show ?thesis by simp
qed

lemma loop_terminates:
  fixes m :: "session \<Rightarrow> nat"
  assumes "I s"
    and step: "\<And>s s'. I s \<Longrightarrow> poll_cycle p prov cb ident start dl s = Inr s' \<Longrightarrow> I s' \<and> m s' < m s"
  shows "\<exists>res. monitor_loop p prov cb ident start dl s = Some res"
  using assms(1)
proof (induction "m s" arbitrary: s rule: less_induct)
  case less
  show ?case
  proof (cases "poll_cycle p prov cb ident start dl s")
    case (Inl r)
    then show ?thesis by (subst monitor_loop.simps) simp
  next
    case (Inr s')
    from step [OF less.prems Inr] have "I s'" "m s' < m s" by simp_all
    from less.hyps [OF this(2) this(1)] Inr show ?thesis
      by (subst monitor_loop.simps) simp
  qed
qed

lemma loop_diverges:
  assumes "I s"
    and step: "\<And>s. I s \<Longrightarrow> \<exists>s'. poll_cycle p prov cb ident start dl s = Inr s' \<and> I s'"
  shows "monitor_loop p prov cb ident start dl s = None"
proof (cases "monitor_loop p prov cb ident start dl s")
  case None
  then show ?thesis .
next
  case (Some res)
  from Some assms(1) have False
  proof (rule loop_rule [where I = I])
    fix s s' assume "I s" "poll_cycle p prov cb ident start dl s = Inr s'"
    with step [of s] show "I s'" by auto
  next
    fix s res assume "I s" "poll_cycle p prov cb ident start dl s = Inl res"
    with step [of s] show False by auto
  qed
  then show ?thesis ..
qed

text \<open>The three outcomes of a cycle.\<close>

lemma poll_cycle_Inr:
  assumes "poll_cycle p prov cb ident start dl s = Inr s'"
  obtains current where
    "fst (prov (queries s)) = TransientError \<and>
       current = (known s)\<lparr>observedAt := now s + snd (prov (queries s))\<rparr> \<or>
     (\<exists>f. fst (prov (queries s)) = Status Pending f \<and>
        current = \<lparr>tx_identifier = ident, state = Pending,
                   observedAt = now s + snd (prov (queries s)), fee = f\<rparr>)"
    "now s + snd (prov (queries s)) < dl"
    "s' = \<lparr>now = now s + snd (prov (queries s)) + interval s,
           interval = min (interval s * backoffMultiplier p) (maxIntervalMs p),
           queries = Suc (queries s),
           known = current,
           delivered = (if cb then delivered s @ [current] else delivered s),
           waited = waited s @ [interval s]\<rparr>"
proof (cases "prov (queries s)")
  case (Pair reply latency)
  show ?thesis
  proof (cases reply)
    case TransientError
    with Pair assms have "now s + latency < dl \<and>
      s' = \<lparr>now = now s + latency + interval s,
           interval = min (interval s * backoffMultiplier p) (maxIntervalMs p),
           queries = Suc (queries s),
           known = (known s)\<lparr>observedAt := now s + latency\<rparr>,
           delivered = (if cb then delivered s @ [(known s)\<lparr>observedAt := now s + latency\<rparr>]
                        else delivered s),
           waited = waited s @ [interval s]\<rparr>"
      by (auto simp: poll_cycle_def pending_step_def deliver_def Let_def split: if_splits)
    with Pair TransientError show ?thesis
      by (intro that [of "(known s)\<lparr>observedAt := now s + latency\<rparr>"]) simp_all
  next
    case (Status st f)
    with Pair assms have "st = Pending \<and> now s + latency < dl \<and>
      s' = \<lparr>now = now s + latency + interval s,
           interval = min (interval s * backoffMultiplier p) (maxIntervalMs p),
           queries = Suc (queries s),
           known = \<lparr>tx_identifier = ident, state = st, observedAt = now s + latency, fee = f\<rparr>,
           delivered = (if cb then delivered s @ [\<lparr>tx_identifier = ident, state = st, observedAt = now s + latency, fee = f\<rparr>] else delivered s),
           waited = waited s @ [interval s]\<rparr>"
      by (cases st) (auto simp: poll_cycle_def pending_step_def deliver_def Let_def split: if_splits)
    with Pair Status show ?thesis
      by (intro that [of "\<lparr>tx_identifier = ident, state = st, observedAt = now s + latency, fee = f\<rparr>"]) simp_all
  qed
qed

lemma poll_cycle_Inl:
  assumes "poll_cycle p prov cb ident start dl s = Inl res"
  obtains
    (terminal) st f where
      "fst (prov (queries s)) = Status st f" "st = Success \<or> st = Failed"
      "res = (Inr \<lparr>tx_identifier = ident, state = st,
                   observedAt = now s + snd (prov (queries s)), fee = f\<rparr>,
              \<lparr>now = now s + snd (prov (queries s)),
               interval = interval s,
               queries = Suc (queries s),
               known = \<lparr>tx_identifier = ident, state = st,
                        observedAt = now s + snd (prov (queries s)), fee = f\<rparr>,
               delivered = (if cb then delivered s @ [\<lparr>tx_identifier = ident, state = st,
                                  observedAt = now s + snd (prov (queries s)), fee = f\<rparr>]
                            else delivered s),
               waited = waited s\<rparr>)"
  | (timeout) current where
      "fst (prov (queries s)) = TransientError \<and>
         current = (known s)\<lparr>observedAt := now s + snd (prov (queries s))\<rparr> \<or>
       (\<exists>f. fst (prov (queries s)) = Status Pending f \<and>
          current = \<lparr>tx_identifier = ident, state = Pending,
                     observedAt = now s + snd (prov (queries s)), fee = f\<rparr>)"
      "dl \<le> now s + snd (prov (queries s))"
      "res = (Inl (MonitoringTimeout ident (now s + snd (prov (queries s)) - start)),
              \<lparr>now = now s + snd (prov (queries s)),
               interval = interval s,
               queries = Suc (queries s),
               known = current,
               delivered = (if cb then delivered s @ [current] else delivered s),
               waited = waited s\<rparr>)"
proof (cases "prov (queries s)")
  case (Pair reply latency)
  show ?thesis
  proof (cases reply)
    case TransientError
    with Pair assms have "dl \<le> now s + latency \<and>
      res = (Inl (MonitoringTimeout ident (now s + latency - start)),
              \<lparr>now = now s + latency,
               interval = interval s,
               queries = Suc (queries s),
               known = (known s)\<lparr>observedAt := now s + latency\<rparr>,
               delivered = (if cb then delivered s @ [(known s)\<lparr>observedAt := now s + latency\<rparr>]
                            else delivered s),
               waited = waited s\<rparr>)"
      by (auto simp: poll_cycle_def pending_step_def deliver_def Let_def split: if_splits)
    with Pair TransientError show ?thesis
      by (intro timeout [of "(known s)\<lparr>observedAt := now s + latency\<rparr>"]) simp_all
  next
    case (Status st f)
    show ?thesis
    proof (cases "st = Pending")
      case True
      with Status Pair assms have "dl \<le> now s + latency \<and>
        res = (Inl (MonitoringTimeout ident (now s + latency - start)),
              \<lparr>now = now s + latency,
               interval = interval s,
               queries = Suc (queries s),
               known = \<lparr>tx_identifier = ident, state = Pending, observedAt = now s + latency, fee = f\<rparr>,
               delivered = (if cb then delivered s @ [\<lparr>tx_identifier = ident, state = Pending, observedAt = now s + latency, fee = f\<rparr>]
                            else delivered s),
               waited = waited s\<rparr>)"
        by (auto simp: poll_cycle_def pending_step_def deliver_def Let_def split: if_splits)
      with Pair Status True show ?thesis
        by (intro timeout [of "\<lparr>tx_identifier = ident, state = Pending, observedAt = now s + latency, fee = f\<rparr>"]) simp_all
    next
      case False
      then have t: "st = Success \<or> st = Failed" by (cases st) simp_all
      with Status Pair assms have
        "res = (Inr \<lparr>tx_identifier = ident, state = st, observedAt = now s + latency, fee = f\<rparr>,
              \<lparr>now = now s + latency,
               interval = interval s,
               queries = Suc (queries s),
               known = \<lparr>tx_identifier = ident, state = st, observedAt = now s + latency, fee = f\<rparr>,
               delivered = (if cb then delivered s @ [\<lparr>tx_identifier = ident, state = st, observedAt = now s + latency, fee = f\<rparr>]
                            else delivered s),
               waited = waited s\<rparr>)"
        by (auto simp: poll_cycle_def pending_step_def deliver_def Let_def split: if_splits)
      with Pair Status t show ?thesis
        by (intro terminal [of st f]) simp_all
    qed
  qed
qed

subsection \<open>Timeout\<close>

lemma cycle_measure:
  fixes i0 :: rat
  assumes "0 < i0" "a < dl" "a + i0 \<le> b"
  shows "nat \<lceil>(dl - b) / i0\<rceil> < nat \<lceil>(dl - a) / i0\<rceil>"
proof -
  from assms have "(dl - b) / i0 \<le> ((dl - a) - i0) / i0"
    by (intro divide_right_mono) simp_all
  also from assms have "\<dots> = (dl - a) / i0 - 1"
    by (simp add: diff_divide_distrib)
  finally have "\<lceil>(dl - b) / i0\<rceil> \<le> \<lceil>(dl - a) / i0 - 1\<rceil>"
    by (rule ceiling_mono)
  then have le: "\<lceil>(dl - b) / i0\<rceil> \<le> \<lceil>(dl - a) / i0\<rceil> - 1"
    by simp
  from assms have "0 < (dl - a) / i0" by simp
  then have "0 < \<lceil>(dl - a) / i0\<rceil>" by simp
  with le show ?thesis by linarith
qed


lemma loop_times_out:
  assumes sane: "sane_policy p"
    and lat: "\<forall>n. 0 \<le> snd (prov n)"
    and pending: "\<forall>n st f. fst (prov n) = Status st f \<longrightarrow> st = Pending"
    and inv: "initialIntervalMs p \<le> interval s" "interval s \<le> maxIntervalMs p"
      "now s \<le> dl + maxIntervalMs p"
  shows "\<exists>s'. monitor_loop p prov cb ident start dl s =
            Some (Inl (MonitoringTimeout ident (now s' - start)), s') \<and>
          dl \<le> now s' \<and>
          now s' \<le> dl + maxIntervalMs p + snd (prov (queries s' - 1))"
proof -
  let ?I = "\<lambda>s. initialIntervalMs p \<le> interval s \<and> interval s \<le> maxIntervalMs p \<and>
      now s \<le> dl + maxIntervalMs p"
  let ?m = "\<lambda>s. nat \<lceil>(dl - now s) / initialIntervalMs p\<rceil>"
  from sane have i0: "0 < initialIntervalMs p" and i0max: "initialIntervalMs p \<le> maxIntervalMs p"
    and mult: "1 \<le> backoffMultiplier p"
    by (simp_all add: sane_policy_def)
  have step: "?I s' \<and> ?m s' < ?m s"
    if I: "?I s" and c: "poll_cycle p prov cb ident start dl s = Inr s'" for s s'
  proof -
    from c obtain current where before: "now s + snd (prov (queries s)) < dl"
      and s': "s' = \<lparr>now = now s + snd (prov (queries s)) + interval s,
           interval = min (interval s * backoffMultiplier p) (maxIntervalMs p),
           queries = Suc (queries s),
           known = current,
           delivered = (if cb then delivered s @ [current] else delivered s),
           waited = waited s @ [interval s]\<rparr>"
      by (rule poll_cycle_Inr)
    from lat have l: "0 \<le> snd (prov (queries s))" by simp
    from I i0 have pos: "0 < interval s" by simp
    from I mult pos have "interval s * 1 \<le> interval s * backoffMultiplier p"
      by (intro mult_left_mono) simp_all
    with I i0max have "initialIntervalMs p \<le> min (interval s * backoffMultiplier p) (maxIntervalMs p)"
      by simp
    moreover from before I have "now s' \<le> dl + maxIntervalMs p"
      by (simp add: s')
    moreover have "?m s' < ?m s"
    proof -
      from l before have "now s < dl" by simp
      moreover from l I have "now s + initialIntervalMs p \<le> now s'" by (simp add: s')
      ultimately show ?thesis using i0 by (intro cycle_measure) simp_all
    qed
    ultimately show ?thesis by (simp add: s')
  qed
  from inv have init: "?I s" by simp
  have "\<exists>res. monitor_loop p prov cb ident start dl s = Some res"
    using init step by (rule loop_terminates [where I = ?I and m = ?m])
  then obtain res where run: "monitor_loop p prov cb ident start dl s = Some res" ..
  let ?Q = "\<lambda>res. \<exists>s'. res = (Inl (MonitoringTimeout ident (now s' - start)), s') \<and>
          dl \<le> now s' \<and> now s' \<le> dl + maxIntervalMs p + snd (prov (queries s' - 1))"
  from run init have "?Q res"
  proof (rule loop_rule [where I = ?I and Q = ?Q])
    fix s s' assume "?I s" "poll_cycle p prov cb ident start dl s = Inr s'"
    then show "?I s'" using step by blast
  next
    fix s res assume I: "?I s" and c: "poll_cycle p prov cb ident start dl s = Inl res"
    from c show "?Q res"
    proof (cases rule: poll_cycle_Inl)
      case (terminal st f)
      with pending show ?thesis by auto
    next
      case (timeout current)
      with I show ?thesis by simp
    qed
  qed
  with run show ?thesis by auto
qed


subsection \<open>Running the loop\<close>

lemma loop_pending:
  assumes "prov q = (Status Pending f, l)" "n + l < dl"
  shows "monitor_loop p prov cb ident start dl
           \<lparr>now = n, interval = i, queries = q, known = k, delivered = d, waited = w\<rparr> =
         monitor_loop p prov cb ident start dl
           \<lparr>now = n + l + i, interval = min (i * backoffMultiplier p) (maxIntervalMs p),
            queries = Suc q,
            known = \<lparr>tx_identifier = ident, state = Pending, observedAt = n + l, fee = f\<rparr>,
            delivered = (if cb then d @ [\<lparr>tx_identifier = ident, state = Pending, observedAt = n + l, fee = f\<rparr>] else d),
            waited = w @ [i]\<rparr>"
  using assms
  by (subst monitor_loop.simps) (simp add: poll_cycle_def pending_step_def deliver_def Let_def)

lemma loop_pending_timeout:
  assumes "prov q = (Status Pending f, l)" "dl \<le> n + l"
  shows "monitor_loop p prov cb ident start dl
           \<lparr>now = n, interval = i, queries = q, known = k, delivered = d, waited = w\<rparr> =
         Some (Inl (MonitoringTimeout ident (n + l - start)),
           \<lparr>now = n + l, interval = i, queries = Suc q,
            known = \<lparr>tx_identifier = ident, state = Pending, observedAt = n + l, fee = f\<rparr>,
            delivered = (if cb then d @ [\<lparr>tx_identifier = ident, state = Pending, observedAt = n + l, fee = f\<rparr>] else d),
            waited = w\<rparr>)"
  using assms
  by (subst monitor_loop.simps) (simp add: poll_cycle_def pending_step_def deliver_def Let_def)

lemma loop_success:
  assumes "prov q = (Status Success f, l)"
  shows "monitor_loop p prov cb ident start dl
           \<lparr>now = n, interval = i, queries = q, known = k, delivered = d, waited = w\<rparr> =
         Some (Inr \<lparr>tx_identifier = ident, state = Success, observedAt = n + l, fee = f\<rparr>,
           \<lparr>now = n + l, interval = i, queries = Suc q,
            known = \<lparr>tx_identifier = ident, state = Success, observedAt = n + l, fee = f\<rparr>,
            delivered = (if cb then d @ [\<lparr>tx_identifier = ident, state = Success, observedAt = n + l, fee = f\<rparr>] else d),
            waited = w\<rparr>)"
  using assms
  by (subst monitor_loop.simps) (simp add: poll_cycle_def pending_step_def deliver_def Let_def)


lemma loop_error:
  assumes "prov q = (TransientError, l)" "n + l < dl"
  shows "monitor_loop p prov cb ident start dl
           \<lparr>now = n, interval = i, queries = q, known = k, delivered = d, waited = w\<rparr> =
         monitor_loop p prov cb ident start dl
           \<lparr>now = n + l + i, interval = min (i * backoffMultiplier p) (maxIntervalMs p),
            queries = Suc q, known = k\<lparr>observedAt := n + l\<rparr>,
            delivered = (if cb then d @ [k\<lparr>observedAt := n + l\<rparr>] else d),
            waited = w @ [i]\<rparr>"
  using assms
  by (subst monitor_loop.simps) (simp add: poll_cycle_def pending_step_def deliver_def Let_def)

lemma loop_error_timeout:
  assumes "prov q = (TransientError, l)" "dl \<le> n + l"
  shows "monitor_loop p prov cb ident start dl
           \<lparr>now = n, interval = i, queries = q, known = k, delivered = d, waited = w\<rparr> =
         Some (Inl (MonitoringTimeout ident (n + l - start)),
           \<lparr>now = n + l, interval = i, queries = Suc q, known = k\<lparr>observedAt := n + l\<rparr>,
            delivered = (if cb then d @ [k\<lparr>observedAt := n + l\<rparr>] else d),
            waited = w\<rparr>)"
  using assms
  by (subst monitor_loop.simps) (simp add: poll_cycle_def pending_step_def deliver_def Let_def)

lemma pending_run:
  "monitor default_policy pending_provider False (lit ''deadbeef'') 0 =
     Some (Inl (MonitoringTimeout (lit ''deadbeef'') 66250),
           \<lparr>now = 66250, interval = 10000, queries = 10,
            known = \<lparr>tx_identifier = lit ''deadbeef'', state = Pending, observedAt = 66250, fee = None\<rparr>,
            delivered = [],
            waited = [2000, 3000, 4500, 6750, 10000, 10000, 10000, 10000, 10000]\<rparr>)"
proof -
  have id: "lit ''deadbeef'' \<noteq> []" by (simp add: lit_def)
  show ?thesis
    by (simp add: monitor_def id default_policy_def loop_pending loop_pending_timeout pending_provider_def)
qed


subsection \<open>Shape of a finished session\<close>

lemma list_all_butlast: "list_all P xs \<Longrightarrow> list_all P (butlast xs)"
  by (auto simp: list_all_iff dest: in_set_butlastD)

lemma loop_shape:
  assumes run: "monitor_loop p prov cb ident start dl s = Some res"
    and init: "queries s = length (waited s)" "list_all (\<lambda>x. state x = Pending) (delivered s)"
      "state (known s) = Pending"
  shows "queries (snd res) = Suc (length (waited (snd res))) \<and>
         list_all (\<lambda>x. state x = Pending) (butlast (delivered (snd res))) \<and>
         ((\<exists>e. fst res = Inl e) \<longrightarrow> list_all (\<lambda>x. state x = Pending) (delivered (snd res)))"
proof -
  let ?I = "\<lambda>s. queries s = length (waited s) \<and> list_all (\<lambda>x. state x = Pending) (delivered s) \<and>
      state (known s) = Pending"
  let ?Q = "\<lambda>res. queries (snd res) = Suc (length (waited (snd res))) \<and>
         list_all (\<lambda>x. state x = Pending) (butlast (delivered (snd res))) \<and>
         ((\<exists>e. fst res = Inl e) \<longrightarrow> list_all (\<lambda>x. state x = Pending) (delivered (snd res)))"
  from init have "?I s" by simp
  with run show "?Q res"
  proof (rule loop_rule [where I = ?I and Q = ?Q])
    fix s s' assume I: "?I s" and c: "poll_cycle p prov cb ident start dl s = Inr s'"
    from c show "?I s'"
    proof (rule poll_cycle_Inr)
      fix current
      assume "fst (prov (queries s)) = TransientError \<and>
           current = (known s)\<lparr>observedAt := now s + snd (prov (queries s))\<rparr> \<or>
         (\<exists>f. fst (prov (queries s)) = Status Pending f \<and>
            current = \<lparr>tx_identifier = ident, state = Pending,
                       observedAt = now s + snd (prov (queries s)), fee = f\<rparr>)"
      with I have "state current = Pending" by auto
      moreover assume "s' = \<lparr>now = now s + snd (prov (queries s)) + interval s,
           interval = min (interval s * backoffMultiplier p) (maxIntervalMs p),
           queries = Suc (queries s),
           known = current,
           delivered = (if cb then delivered s @ [current] else delivered s),
           waited = waited s @ [interval s]\<rparr>"
      ultimately show ?thesis using I by simp
    qed
  next
    fix s res assume I: "?I s" and c: "poll_cycle p prov cb ident start dl s = Inl res"
    from c show "?Q res"
    proof (cases rule: poll_cycle_Inl)
      case (terminal st f)
      with I show ?thesis by (simp add: list_all_butlast)
    next
      case (timeout current)
      with I have "state current = Pending" by auto
      with timeout I show ?thesis by (simp add: list_all_butlast)
    qed
  qed
qed

subsection \<open>Order of the observations\<close>



subsection \<open>Backoff\<close>

lemma chain_snoc:
  "backoff_chain p (ws @ [i]) \<Longrightarrow>
   backoff_chain p (ws @ [i, min (i * backoffMultiplier p) (maxIntervalMs p)])"
proof (induction ws)
  case Nil
  then show ?case by simp
next
  case (Cons a ws)
  then show ?case by (cases ws) simp_all
qed

lemma chain_prefix: "backoff_chain p (ws @ [i]) \<Longrightarrow> backoff_chain p ws"
proof (induction ws)
  case Nil
  then show ?case by simp
next
  case (Cons a ws)
  then show ?case by (cases ws) simp_all
qed

lemma chain_nth:
  "backoff_chain p ws \<Longrightarrow> Suc k < length ws \<Longrightarrow>
   ws ! Suc k = min (ws ! k * backoffMultiplier p) (maxIntervalMs p)"
proof (induction ws arbitrary: k)
  case Nil
  then show ?case by simp
next
  case (Cons a ws)
  show ?case
  proof (cases ws)
    case Nil
    with Cons.prems show ?thesis by simp
  next
    case (Cons b ws')
    with Cons.prems Cons.IH [of "k - 1"] show ?thesis by (cases k) auto
  qed
qed

lemma loop_backoff:
  assumes run: "monitor_loop p prov cb ident start dl s = Some res"
    and init: "backoff_chain p (waited s @ [interval s])" "hd (waited s @ [interval s]) = a"
  shows "backoff_chain p (waited (snd res)) \<and> (waited (snd res) \<noteq> [] \<longrightarrow> hd (waited (snd res)) = a)"
proof -
  let ?I = "\<lambda>s. backoff_chain p (waited s @ [interval s]) \<and> hd (waited s @ [interval s]) = a"
  let ?Q = "\<lambda>res. backoff_chain p (waited (snd res)) \<and>
      (waited (snd res) \<noteq> [] \<longrightarrow> hd (waited (snd res)) = a)"
  from init have "?I s" by simp
  with run show "?Q res"
  proof (rule loop_rule [where I = ?I and Q = ?Q])
    fix s s' assume I: "?I s" and c: "poll_cycle p prov cb ident start dl s = Inr s'"
    from c show "?I s'"
    proof (rule poll_cycle_Inr)
      fix current
      assume "s' = \<lparr>now = now s + snd (prov (queries s)) + interval s,
           interval = min (interval s * backoffMultiplier p) (maxIntervalMs p),
           queries = Suc (queries s),
           known = current,
           delivered = (if cb then delivered s @ [current] else delivered s),
           waited = waited s @ [interval s]\<rparr>"
      with I chain_snoc [of p "waited s" "interval s"] show ?thesis
        by (auto simp: hd_append split: if_splits)
    qed
  next
    fix s res assume I: "?I s" and c: "poll_cycle p prov cb ident start dl s = Inl res"
    from I have "backoff_chain p (waited s)" "waited s \<noteq> [] \<longrightarrow> hd (waited s) = a"
      by (auto dest: chain_prefix simp: hd_append)
    with c show "?Q res"
      by (cases rule: poll_cycle_Inl) simp_all
  qed
qed

lemma default_chain_values:
  assumes policy: "maxIntervalMs p = 10000" "backoffMultiplier p = 3 / 2"
    and chain: "backoff_chain p ws" and first: "ws \<noteq> []" "hd ws = 2000"
    and k: "k < length ws"
  shows "ws ! k = (if k = 0 then 2000 else if k = 1 then 3000 else if k = 2 then 4500
                   else if k = 3 then 6750 else 10000)"
  using k
proof (induction k)
  case 0
  with first show ?case by (simp add: hd_conv_nth)
next
  case (Suc k)
  then have IH: "ws ! k = (if k = 0 then 2000 else if k = 1 then 3000 else if k = 2 then 4500
                   else if k = 3 then 6750 else 10000)"
    by simp
  from chain_nth [OF chain Suc.prems]
  have step: "ws ! Suc k = min (ws ! k * (3 / 2)) 10000"
    by (simp add: policy)
  consider "k = 0" | "k = 1" | "k = 2" | "k = 3" | "4 \<le> k" by linarith
  then show ?case
    using step IH by cases simp_all
qed

section \<open>The monitor\<close>

lemma monitor_start:
  "ident \<noteq> [] \<Longrightarrow>
   monitor policy provider onProgress ident t0 =
     monitor_loop policy provider onProgress ident t0 (t0 + timeoutMs policy)
       \<lparr>now = t0, interval = initialIntervalMs policy, queries = 0,
        known = \<lparr>tx_identifier = ident, state = Pending, observedAt = t0, fee = None\<rparr>,
        delivered = [], waited = []\<rparr>"
  by (simp add: monitor_def)


subsection \<open>A first query that succeeds\<close>

text \<open>
  C6. For every valid identifier, if the provider answers the first query with a status
  whose state is \<open>success\<close>, the monitor resolves with that status at once: it has made
  one query and no wait, and \<open>onProgress\<close>, when provided, has been invoked exactly
  once, with the final status.
\<close>

theorem monitor_first_success:
  assumes "ident \<noteq> []" and "fst (provider 0) = Status Success f"
  shows "\<exists>s. monitor policy provider onProgress ident t0 =
           Some (Inr \<lparr>tx_identifier = ident, state = Success,
                      observedAt = t0 + snd (provider 0), fee = f\<rparr>, s) \<and>
         queries s = 1 \<and> waited s = [] \<and> now s = t0 + snd (provider 0) \<and>
         delivered s =
           (if onProgress then [\<lparr>tx_identifier = ident, state = Success,
                                  observedAt = t0 + snd (provider 0), fee = f\<rparr>]
            else [])"
proof -
  from assms(2) have reply: "provider 0 = (Status Success f, snd (provider 0))"
    by (cases "provider 0") simp
  show ?thesis
    unfolding monitor_start [OF assms(1)]
    by (subst loop_success [where prov = provider and q = 0, OF reply]) simp
qed

theorem monitor_first_success_witness:
  "lit ''deadbeef'' \<noteq> [] \<and> fst (succeeding_provider 0) = Status Success (Some 100) \<and>
   (\<exists>s. monitor default_policy succeeding_provider True (lit ''deadbeef'') 1700000000000 =
           Some (Inr \<lparr>tx_identifier = lit ''deadbeef'', state = Success,
                      observedAt = 1700000000250, fee = Some 100\<rparr>, s) \<and>
         queries s = 1 \<and> waited s = [] \<and> now s = 1700000000250 \<and>
         delivered s = [\<lparr>tx_identifier = lit ''deadbeef'', state = Success,
                         observedAt = 1700000000250, fee = Some 100\<rparr>])"
proof -
  have id: "lit ''deadbeef'' \<noteq> []" by (simp add: lit_def)
  have reply: "fst (succeeding_provider 0) = Status Success (Some 100)"
    by (simp add: succeeding_provider_def)
  from monitor_first_success [where provider = succeeding_provider and policy = default_policy
      and onProgress = True and ?t0.0 = 1700000000000, OF id reply] id reply
  show ?thesis by (simp add: succeeding_provider_def)
qed

subsection \<open>The backoff sequence\<close>

text \<open>
  C3. In a session whose policy has \<open>initialIntervalMs = 2000\<close>,
  \<open>maxIntervalMs = 10000\<close> and \<open>backoffMultiplier = 1.5\<close>, the waits between successive
  polls are \<open>2000, 3000, 4500, 6750, 10000, 10000, \<dots>\<close>: each is
  \<open>min (previous * 1.5) 10000\<close>, and there is exactly one wait between two successive
  queries.
\<close>

theorem monitor_backoff_sequence:
  assumes policy: "initialIntervalMs policy = 2000" "maxIntervalMs policy = 10000"
      "backoffMultiplier policy = 3 / 2"
    and session: "monitor policy provider onProgress ident t0 = Some (r, s)"
  shows "(\<forall>k < length (waited s).
            waited s ! k = (if k = 0 then 2000 else if k = 1 then 3000 else if k = 2 then 4500
                            else if k = 3 then 6750 else 10000)) \<and>
         (\<forall>k. Suc k < length (waited s) \<longrightarrow> waited s ! Suc k = min (waited s ! k * (3 / 2)) 10000) \<and>
         (ident \<noteq> [] \<longrightarrow> queries s = Suc (length (waited s)))"
proof (cases "ident = []")
  case True
  with session show ?thesis by (auto simp: monitor_def)
next
  case False
  let ?s0 = "\<lparr>now = t0, interval = initialIntervalMs policy, queries = 0,
        known = \<lparr>tx_identifier = ident, state = Pending, observedAt = t0, fee = None\<rparr>,
        delivered = [], waited = []\<rparr>"
  from session False have run: "monitor_loop policy provider onProgress ident t0
      (t0 + timeoutMs policy) ?s0 = Some (r, s)"
    by (simp add: monitor_start)
  from loop_backoff [OF run, of 2000]
  have chain: "backoff_chain policy (waited s)" and
    first: "waited s \<noteq> [] \<longrightarrow> hd (waited s) = 2000"
    by (simp_all add: policy)
  from loop_shape [OF run] have count: "queries s = Suc (length (waited s))"
    by simp
  have "waited s ! k = (if k = 0 then 2000 else if k = 1 then 3000 else if k = 2 then 4500
                            else if k = 3 then 6750 else 10000)" if "k < length (waited s)" for k
    using policy(2,3) chain _ _ that by (rule default_chain_values) (use that first in auto)
  moreover have "waited s ! Suc k = min (waited s ! k * (3 / 2)) 10000"
    if "Suc k < length (waited s)" for k
    using chain_nth [OF chain that] by (simp add: policy)
  ultimately show ?thesis using count by blast
qed

theorem monitor_backoff_sequence_witness:
  "monitor default_policy pending_provider False (lit ''deadbeef'') 0 =
     Some (Inl (MonitoringTimeout (lit ''deadbeef'') 66250),
           \<lparr>now = 66250, interval = 10000, queries = 10,
            known = \<lparr>tx_identifier = lit ''deadbeef'', state = Pending, observedAt = 66250, fee = None\<rparr>,
            delivered = [],
            waited = [2000, 3000, 4500, 6750, 10000, 10000, 10000, 10000, 10000]\<rparr>) \<and>
   [2000, 3000, 4500, 6750, 10000, 10000, 10000, 10000, 10000 :: rat] ! 3 = 6750 \<and>
   [2000, 3000, 4500, 6750, 10000, 10000, 10000, 10000, 10000 :: rat] ! 4 = min (6750 * (3 / 2)) 10000"
proof -
  have "initialIntervalMs default_policy = 2000" "maxIntervalMs default_policy = 10000"
    "backoffMultiplier default_policy = 3 / 2"
    by (simp_all add: default_policy_def)
  from monitor_backoff_sequence [OF this pending_run] pending_run
  show ?thesis by simp
qed


subsection \<open>Order of the progress reports\<close>




subsection \<open>Timeout\<close>

text \<open>
  C4, as the monitor has it. For every policy with
  \<open>0 < initialIntervalMs \<le> maxIntervalMs\<close>, \<open>1 \<le> backoffMultiplier\<close> and
  \<open>0 \<le> timeoutMs\<close>, every valid identifier and every provider that takes no negative
  time and never reports a terminal state, the monitor fails with a MonitoringTimeout, and
  the time elapsed since the invocation is at least \<open>timeoutMs\<close> and at most
  \<open>timeoutMs + maxIntervalMs\<close> plus the latency of the last query.
\<close>

theorem monitor_timeout_bounds:
  assumes sane: "sane_policy policy" and id: "ident \<noteq> []"
    and lat: "\<forall>n. 0 \<le> snd (provider n)"
    and pending: "\<forall>n st f. fst (provider n) = Status st f \<longrightarrow> st = Pending"
  shows "\<exists>s. monitor policy provider onProgress ident t0 =
           Some (Inl (MonitoringTimeout ident (now s - t0)), s) \<and>
         timeoutMs policy \<le> now s - t0 \<and>
         now s - t0 \<le> timeoutMs policy + maxIntervalMs policy + snd (provider (queries s - 1))"
proof -
  let ?s0 = "\<lparr>now = t0, interval = initialIntervalMs policy, queries = 0,
        known = \<lparr>tx_identifier = ident, state = Pending, observedAt = t0, fee = None\<rparr>,
        delivered = [], waited = []\<rparr>"
  from sane have "initialIntervalMs policy \<le> interval ?s0" "interval ?s0 \<le> maxIntervalMs policy"
    "now ?s0 \<le> (t0 + timeoutMs policy) + maxIntervalMs policy"
    by (simp_all add: sane_policy_def)
  from loop_times_out [OF sane lat pending this, of onProgress ident t0]
  obtain s' where "monitor_loop policy provider onProgress ident t0 (t0 + timeoutMs policy) ?s0 =
            Some (Inl (MonitoringTimeout ident (now s' - t0)), s')"
    "t0 + timeoutMs policy \<le> now s'"
    "now s' \<le> t0 + timeoutMs policy + maxIntervalMs policy + snd (provider (queries s' - 1))"
    by blast
  then show ?thesis
    by (intro exI [of _ s']) (simp add: monitor_start [OF id])
qed

text \<open>
  C5. For every valid identifier and every provider whose every query raises a transient
  error (after a latency that is not negative), a session with a sane policy ends, and
  ends with a MonitoringTimeout, not before the deadline: it has queried again after every
  wait, and what it has handed to \<open>onProgress\<close> are pending statuses only.
\<close>

theorem monitor_transient_errors:
  assumes sane: "sane_policy policy" and id: "ident \<noteq> []"
    and lat: "\<forall>n. 0 \<le> snd (provider n)"
    and errors: "\<forall>n. fst (provider n) = TransientError"
  shows "\<exists>s. monitor policy provider onProgress ident t0 =
           Some (Inl (MonitoringTimeout ident (now s - t0)), s) \<and>
         timeoutMs policy \<le> now s - t0 \<and>
         queries s = Suc (length (waited s)) \<and>
         (\<forall>x \<in> set (delivered s). state x = Pending)"
proof -
  let ?s0 = "\<lparr>now = t0, interval = initialIntervalMs policy, queries = 0,
        known = \<lparr>tx_identifier = ident, state = Pending, observedAt = t0, fee = None\<rparr>,
        delivered = [], waited = []\<rparr>"
  from errors have pending: "\<forall>n st f. fst (provider n) = Status st f \<longrightarrow> st = Pending"
    by simp
  from sane have "initialIntervalMs policy \<le> interval ?s0" "interval ?s0 \<le> maxIntervalMs policy"
    "now ?s0 \<le> (t0 + timeoutMs policy) + maxIntervalMs policy"
    by (simp_all add: sane_policy_def)
  from loop_times_out [OF sane lat pending this, of onProgress ident t0]
  obtain s' where run: "monitor_loop policy provider onProgress ident t0 (t0 + timeoutMs policy) ?s0 =
            Some (Inl (MonitoringTimeout ident (now s' - t0)), s')"
    and late: "t0 + timeoutMs policy \<le> now s'"
    by blast
  from loop_shape [OF run]
  have "queries s' = Suc (length (waited s'))" "list_all (\<lambda>x. state x = Pending) (delivered s')"
    by simp_all
  with run late show ?thesis
    by (intro exI [of _ s']) (simp add: monitor_start [OF id] list_all_iff)
qed


lemma sane_default: "sane_policy default_policy"
  by (simp add: sane_policy_def default_policy_def)

lemma deadbeef: "lit ''deadbeef'' \<noteq> []"
  by (simp add: lit_def)

theorem monitor_timeout_bounds_witness:
  "sane_policy default_policy \<and> lit ''deadbeef'' \<noteq> [] \<and>
   (\<forall>n. 0 \<le> snd (pending_provider n)) \<and>
   (\<forall>n. fst (pending_provider n) = Status Pending None) \<and>
   monitor default_policy pending_provider False (lit ''deadbeef'') 0 =
     Some (Inl (MonitoringTimeout (lit ''deadbeef'') 66250),
           \<lparr>now = 66250, interval = 10000, queries = 10,
            known = \<lparr>tx_identifier = lit ''deadbeef'', state = Pending, observedAt = 66250, fee = None\<rparr>,
            delivered = [],
            waited = [2000, 3000, 4500, 6750, 10000, 10000, 10000, 10000, 10000]\<rparr>) \<and>
   timeoutMs default_policy \<le> 66250 \<and>
   66250 \<le> timeoutMs default_policy + maxIntervalMs default_policy + snd (pending_provider 9)"
proof -
  have lat: "\<forall>n. 0 \<le> snd (pending_provider n)"
    and pending: "\<forall>n st f. fst (pending_provider n) = Status st f \<longrightarrow> st = Pending"
    by (simp_all add: pending_provider_def)
  from monitor_timeout_bounds [OF sane_default deadbeef lat pending, of False 0]
  have "timeoutMs default_policy \<le> 66250 \<and>
   66250 \<le> timeoutMs default_policy + maxIntervalMs default_policy + snd (pending_provider 9)"
    by (simp add: pending_run)
  moreover have "\<forall>n. fst (pending_provider n) = Status Pending None"
    by (simp add: pending_provider_def)
  ultimately show ?thesis
    using sane_default deadbeef lat pending_run by blast
qed

lemma failing_run:
  "monitor default_policy failing_provider True (lit ''deadbeef'') 0 =
     Some (Inl (MonitoringTimeout (lit ''deadbeef'') 66250),
           \<lparr>now = 66250, interval = 10000, queries = 10,
            known = \<lparr>tx_identifier = lit ''deadbeef'', state = Pending, observedAt = 66250, fee = None\<rparr>,
            delivered =
              [\<lparr>tx_identifier = lit ''deadbeef'', state = Pending, observedAt = 0, fee = None\<rparr>,
               \<lparr>tx_identifier = lit ''deadbeef'', state = Pending, observedAt = 2000, fee = None\<rparr>,
               \<lparr>tx_identifier = lit ''deadbeef'', state = Pending, observedAt = 5000, fee = None\<rparr>,
               \<lparr>tx_identifier = lit ''deadbeef'', state = Pending, observedAt = 9500, fee = None\<rparr>,
               \<lparr>tx_identifier = lit ''deadbeef'', state = Pending, observedAt = 16250, fee = None\<rparr>,
               \<lparr>tx_identifier = lit ''deadbeef'', state = Pending, observedAt = 26250, fee = None\<rparr>,
               \<lparr>tx_identifier = lit ''deadbeef'', state = Pending, observedAt = 36250, fee = None\<rparr>,
               \<lparr>tx_identifier = lit ''deadbeef'', state = Pending, observedAt = 46250, fee = None\<rparr>,
               \<lparr>tx_identifier = lit ''deadbeef'', state = Pending, observedAt = 56250, fee = None\<rparr>,
               \<lparr>tx_identifier = lit ''deadbeef'', state = Pending, observedAt = 66250, fee = None\<rparr>],
            waited = [2000, 3000, 4500, 6750, 10000, 10000, 10000, 10000, 10000]\<rparr>)"
  by (simp add: monitor_def deadbeef default_policy_def loop_error loop_error_timeout
      failing_provider_def)

theorem monitor_transient_errors_witness:
  "sane_policy default_policy \<and> lit ''deadbeef'' \<noteq> [] \<and>
   (\<forall>n. 0 \<le> snd (failing_provider n)) \<and>
   (\<forall>n. fst (failing_provider n) = TransientError) \<and>
   monitor default_policy failing_provider True (lit ''deadbeef'') 0 =
     Some (Inl (MonitoringTimeout (lit ''deadbeef'') 66250),
           \<lparr>now = 66250, interval = 10000, queries = 10,
            known = \<lparr>tx_identifier = lit ''deadbeef'', state = Pending, observedAt = 66250, fee = None\<rparr>,
            delivered =
              [\<lparr>tx_identifier = lit ''deadbeef'', state = Pending, observedAt = 0, fee = None\<rparr>,
               \<lparr>tx_identifier = lit ''deadbeef'', state = Pending, observedAt = 2000, fee = None\<rparr>,
               \<lparr>tx_identifier = lit ''deadbeef'', state = Pending, observedAt = 5000, fee = None\<rparr>,
               \<lparr>tx_identifier = lit ''deadbeef'', state = Pending, observedAt = 9500, fee = None\<rparr>,
               \<lparr>tx_identifier = lit ''deadbeef'', state = Pending, observedAt = 16250, fee = None\<rparr>,
               \<lparr>tx_identifier = lit ''deadbeef'', state = Pending, observedAt = 26250, fee = None\<rparr>,
               \<lparr>tx_identifier = lit ''deadbeef'', state = Pending, observedAt = 36250, fee = None\<rparr>,
               \<lparr>tx_identifier = lit ''deadbeef'', state = Pending, observedAt = 46250, fee = None\<rparr>,
               \<lparr>tx_identifier = lit ''deadbeef'', state = Pending, observedAt = 56250, fee = None\<rparr>,
               \<lparr>tx_identifier = lit ''deadbeef'', state = Pending, observedAt = 66250, fee = None\<rparr>],
            waited = [2000, 3000, 4500, 6750, 10000, 10000, 10000, 10000, 10000]\<rparr>) \<and>
   timeoutMs default_policy \<le> 66250"
proof -
  have lat: "\<forall>n. 0 \<le> snd (failing_provider n)"
    and errors: "\<forall>n. fst (failing_provider n) = TransientError"
    by (simp_all add: failing_provider_def)
  from monitor_transient_errors [OF sane_default deadbeef lat errors, of True 0]
  have "timeoutMs default_policy \<le> 66250"
    by (simp add: failing_run)
  with sane_default deadbeef lat errors failing_run show ?thesis by blast
qed

subsection \<open>Sessions outside the bounds\<close>

lemma slow_run:
  "monitor default_policy slow_provider False (lit ''deadbeef'') 0 =
     Some (Inl (MonitoringTimeout (lit ''deadbeef'') 100000),
           \<lparr>now = 100000, interval = 2000, queries = 1,
            known = \<lparr>tx_identifier = lit ''deadbeef'', state = Pending, observedAt = 100000, fee = None\<rparr>,
            delivered = [], waited = []\<rparr>)"
  by (simp add: monitor_def deadbeef default_policy_def loop_pending loop_pending_timeout
      slow_provider_def)

lemma eager_run:
  "monitor (default_policy\<lparr>initialIntervalMs := 100000\<rparr>) pending_provider False (lit ''deadbeef'') 0 =
     Some (Inl (MonitoringTimeout (lit ''deadbeef'') 100000),
           \<lparr>now = 100000, interval = 10000, queries = 2,
            known = \<lparr>tx_identifier = lit ''deadbeef'', state = Pending, observedAt = 100000, fee = None\<rparr>,
            delivered = [], waited = [100000]\<rparr>)"
  by (simp add: monitor_def deadbeef default_policy_def loop_pending loop_pending_timeout
      pending_provider_def)

lemma negative_run:
  "monitor (default_policy\<lparr>timeoutMs := - 20000\<rparr>) pending_provider False (lit ''deadbeef'') 0 =
     Some (Inl (MonitoringTimeout (lit ''deadbeef'') 0),
           \<lparr>now = 0, interval = 2000, queries = 1,
            known = \<lparr>tx_identifier = lit ''deadbeef'', state = Pending, observedAt = 0, fee = None\<rparr>,
            delivered = [], waited = []\<rparr>)"
  by (simp add: monitor_def deadbeef default_policy_def loop_pending loop_pending_timeout
      pending_provider_def)

lemma stalled_run:
  "monitor (default_policy\<lparr>initialIntervalMs := 0\<rparr>) pending_provider False (lit ''deadbeef'') 0 = None"
proof -
  let ?p = "default_policy\<lparr>initialIntervalMs := 0\<rparr>"
  let ?I = "\<lambda>s :: session. now s = 0 \<and> interval s = 0"
  have "monitor_loop ?p pending_provider False (lit ''deadbeef'') 0 (0 + timeoutMs ?p)
      \<lparr>now = 0, interval = initialIntervalMs ?p, queries = 0,
        known = \<lparr>tx_identifier = lit ''deadbeef'', state = Pending, observedAt = 0, fee = None\<rparr>,
        delivered = [], waited = []\<rparr> = None"
  proof (rule loop_diverges [where I = ?I])
    show "?I \<lparr>now = 0, interval = initialIntervalMs ?p, queries = 0,
        known = \<lparr>tx_identifier = lit ''deadbeef'', state = Pending, observedAt = 0, fee = None\<rparr>,
        delivered = [], waited = []\<rparr>"
      by simp
  next
    fix s :: session assume "?I s"
    then show "\<exists>s'. poll_cycle ?p pending_provider False (lit ''deadbeef'') 0 (0 + timeoutMs ?p) s = Inr s' \<and> ?I s'"
      by (simp add: poll_cycle_def pending_step_def deliver_def pending_provider_def Let_def
          default_policy_def)
  qed
  then show ?thesis by (simp add: monitor_start [OF deadbeef])
qed

lemma shrinking_run:
  "monitor (default_policy\<lparr>backoffMultiplier := 1 / 2\<rparr>) pending_provider False (lit ''deadbeef'') 0 = None"
proof -
  let ?p = "default_policy\<lparr>backoffMultiplier := 1 / 2\<rparr>"
  let ?I = "\<lambda>s :: session. 0 < interval s \<and> interval s \<le> 2000 \<and> now s + 2 * interval s = 4000"
  have "monitor_loop ?p pending_provider False (lit ''deadbeef'') 0 (0 + timeoutMs ?p)
      \<lparr>now = 0, interval = initialIntervalMs ?p, queries = 0,
        known = \<lparr>tx_identifier = lit ''deadbeef'', state = Pending, observedAt = 0, fee = None\<rparr>,
        delivered = [], waited = []\<rparr> = None"
  proof (rule loop_diverges [where I = ?I])
    show "?I \<lparr>now = 0, interval = initialIntervalMs ?p, queries = 0,
        known = \<lparr>tx_identifier = lit ''deadbeef'', state = Pending, observedAt = 0, fee = None\<rparr>,
        delivered = [], waited = []\<rparr>"
      by (simp add: default_policy_def)
  next
    fix s :: session assume I: "?I s"
    then have "now s < 60000" by linarith
    with I show "\<exists>s'. poll_cycle ?p pending_provider False (lit ''deadbeef'') 0 (0 + timeoutMs ?p) s = Inr s' \<and> ?I s'"
      by (simp add: poll_cycle_def pending_step_def deliver_def pending_provider_def Let_def
          default_policy_def min_def)
  qed
  then show ?thesis by (simp add: monitor_start [OF deadbeef])
qed

text \<open>
  C4, as stated, fails, in each of these sessions of a provider that never reports a
  terminal state. Under the default policy a provider that takes \<open>100\<close> seconds to answer
  makes the timeout come after \<open>100000\<close> ms, beyond \<open>timeoutMs + maxIntervalMs\<close>; so
  does a first interval above the maximum; with a negative timeout the session times out
  at once, after \<open>0\<close> ms, which is above \<open>timeoutMs + maxIntervalMs\<close>; with a first
  interval of \<open>0\<close>, or a multiplier of \<open>1/2\<close>, and a provider that answers at once,
  the clock never reaches the deadline and the session never ends.
\<close>

theorem monitor_timeout_bounds_counterexample:
  "monitor default_policy slow_provider False (lit ''deadbeef'') 0 =
     Some (Inl (MonitoringTimeout (lit ''deadbeef'') 100000),
           \<lparr>now = 100000, interval = 2000, queries = 1,
            known = \<lparr>tx_identifier = lit ''deadbeef'', state = Pending, observedAt = 100000, fee = None\<rparr>,
            delivered = [], waited = []\<rparr>) \<and>
   \<not> 100000 \<le> timeoutMs default_policy + maxIntervalMs default_policy \<and>
   monitor (default_policy\<lparr>initialIntervalMs := 100000\<rparr>) pending_provider False (lit ''deadbeef'') 0 =
     Some (Inl (MonitoringTimeout (lit ''deadbeef'') 100000),
           \<lparr>now = 100000, interval = 10000, queries = 2,
            known = \<lparr>tx_identifier = lit ''deadbeef'', state = Pending, observedAt = 100000, fee = None\<rparr>,
            delivered = [], waited = [100000]\<rparr>) \<and>
   \<not> 100000 \<le> timeoutMs (default_policy\<lparr>initialIntervalMs := 100000\<rparr>) +
        maxIntervalMs (default_policy\<lparr>initialIntervalMs := 100000\<rparr>) \<and>
   monitor (default_policy\<lparr>timeoutMs := - 20000\<rparr>) pending_provider False (lit ''deadbeef'') 0 =
     Some (Inl (MonitoringTimeout (lit ''deadbeef'') 0),
           \<lparr>now = 0, interval = 2000, queries = 1,
            known = \<lparr>tx_identifier = lit ''deadbeef'', state = Pending, observedAt = 0, fee = None\<rparr>,
            delivered = [], waited = []\<rparr>) \<and>
   \<not> 0 \<le> timeoutMs (default_policy\<lparr>timeoutMs := - 20000\<rparr>) +
        maxIntervalMs (default_policy\<lparr>timeoutMs := - 20000\<rparr>) \<and>
   monitor (default_policy\<lparr>initialIntervalMs := 0\<rparr>) pending_provider False (lit ''deadbeef'') 0 = None \<and>
   monitor (default_policy\<lparr>backoffMultiplier := 1 / 2\<rparr>) pending_provider False (lit ''deadbeef'') 0 = None"
  using slow_run eager_run negative_run stalled_run shrinking_run
  by (simp add: default_policy_def)


end
